theory Spec2Isabelle
  imports Complex_Main "HOL-Library.AList"
begin

section \<open>JavaScript helpers used by the injected script\<close>

text \<open>
  JavaScript numbers that carry pixel values are modelled as exact reals (no rounding);
  identifiers issued by the script are natural numbers, since the counter starts at 1 and
  only ever grows by 1. A string is a sequence of UTF-16 code units, restricted to the
  units below 256; on these the functions below do what the JavaScript functions do.
\<close>

definition digitChar :: "nat \<Rightarrow> char" where
  "digitChar d = ''0123456789'' ! d"

text \<open>\<^verbatim>\<open>String(n)\<close> for a non-negative integer: its decimal rendering.\<close>

fun String :: "nat \<Rightarrow> string" where
  "String n = (if n < 10 then [digitChar n] else String (n div 10) @ [digitChar (n mod 10)])"

declare String.simps [simp del]

text \<open>
  A number that a caller passes to a tool. The code does one thing with it: it prints it
  in a template literal. So a number is either an integer of magnitude below \<open>10\<^sup>2\<^sup>1\<close>,
  which is printed in decimal, or any other number (a fraction, a larger value, not a
  number, an infinity), which is given by the text it is printed as.
\<close>

datatype jsNumber = IntNum int | OtherNum string

fun numberToString :: "jsNumber \<Rightarrow> string" where
  "numberToString (IntNum i) = (if i < 0 then CHR ''-'' # String (nat (- i)) else String (nat i))"
| "numberToString (OtherNum s) = s"

definition upperCaseLetters :: string where
  "upperCaseLetters = ''ABCDEFGHIJKLMNOPQRSTUVWXYZ'' @
     [CHR 0xC0, CHR 0xC1, CHR 0xC2, CHR 0xC3, CHR 0xC4, CHR 0xC5, CHR 0xC6, CHR 0xC7,
     CHR 0xC8, CHR 0xC9, CHR 0xCA, CHR 0xCB, CHR 0xCC, CHR 0xCD, CHR 0xCE, CHR 0xCF,
     CHR 0xD0, CHR 0xD1, CHR 0xD2, CHR 0xD3, CHR 0xD4, CHR 0xD5, CHR 0xD6, CHR 0xD8,
     CHR 0xD9, CHR 0xDA, CHR 0xDB, CHR 0xDC, CHR 0xDD, CHR 0xDE]"

definition lowerCaseLetters :: string where
  "lowerCaseLetters = ''abcdefghijklmnopqrstuvwxyz'' @
     [CHR 0xE0, CHR 0xE1, CHR 0xE2, CHR 0xE3, CHR 0xE4, CHR 0xE5, CHR 0xE6, CHR 0xE7,
     CHR 0xE8, CHR 0xE9, CHR 0xEA, CHR 0xEB, CHR 0xEC, CHR 0xED, CHR 0xEE, CHR 0xEF,
     CHR 0xF0, CHR 0xF1, CHR 0xF2, CHR 0xF3, CHR 0xF4, CHR 0xF5, CHR 0xF6, CHR 0xF8,
     CHR 0xF9, CHR 0xFA, CHR 0xFB, CHR 0xFC, CHR 0xFD, CHR 0xFE]"

definition toLowerChar :: "char \<Rightarrow> char" where
  "toLowerChar c =
     (case map_of (zip upperCaseLetters lowerCaseLetters) c of
        Some l \<Rightarrow> l
      | None \<Rightarrow> c)"

definition toLowerCase :: "string \<Rightarrow> string" where
  "toLowerCase s = map toLowerChar s"

text \<open>
  The white space of \<^verbatim>\<open>\s\<close> and of \<^verbatim>\<open>trim()\<close> among the units below 256: tab, line feed,
  vertical tab, form feed, carriage return, space and no-break space.
\<close>

definition isSpace :: "char \<Rightarrow> bool" where
  "isSpace c =
     (c \<in> set [CHR '' '', CHR 0x09, CHR 0x0A, CHR 0x0B, CHR 0x0C, CHR 0x0D, CHR 0xA0])"

text \<open>\<^verbatim>\<open>s.replace(/\s+/g, ' ')\<close>: every maximal run of white space becomes one blank.\<close>

function collapseSpaces :: "string \<Rightarrow> string" where
  "collapseSpaces [] = []"
| "collapseSpaces (c # cs) =
     (if isSpace c then CHR '' '' # collapseSpaces (dropWhile isSpace cs)
      else c # collapseSpaces cs)"
  by pat_completeness auto
termination
  by (relation "measure length") (auto simp: length_dropWhile_le less_Suc_eq_le)

definition trim :: "string \<Rightarrow> string" where
  "trim s = rev (dropWhile isSpace (rev (dropWhile isSpace s)))"

text \<open>\<^verbatim>\<open>s.slice(0, n)\<close>: a negative end counts from the end of the string.\<close>

definition slice0 :: "string \<Rightarrow> int \<Rightarrow> string" where
  "slice0 s n = (if n < 0 then take (nat (int (length s) + n)) s else take (nat n) s)"

text \<open>
  A chain \<^verbatim>\<open>a || b || ... || ''\<close> over strings that may be \<^verbatim>\<open>null\<close>: the first
  operand that is neither \<^verbatim>\<open>null\<close> nor empty, and the empty string when there is none.
\<close>

fun firstTruthy :: "string option list \<Rightarrow> string" where
  "firstTruthy [] = []"
| "firstTruthy (None # xs) = firstTruthy xs"
| "firstTruthy (Some s # xs) = (if s = [] then firstTruthy xs else s)"

definition truthy :: "string option \<Rightarrow> bool" where
  "truthy v = (case v of None \<Rightarrow> False | Some s \<Rightarrow> s \<noteq> [])"

text \<open>\<^verbatim>\<open>parts.join('\n')\<close>.\<close>

fun joinLines :: "string list \<Rightarrow> string" where
  "joinLines [] = []"
| "joinLines [x] = x"
| "joinLines (x # y # ys) = x @ [CHR 0x0A] @ joinLines (y # ys)"

section \<open>The data model of \<^verbatim>\<open>domOptimizer.ts\<close>\<close>

record SnapshotOptions =
  opt_viewportBuffer :: "real option"
  opt_maxTextLength :: "int option"
  opt_includeHidden :: "bool option"
  opt_minElementSize :: "(real \<times> real) option"

text \<open>The options after the defaults are applied (\<^verbatim>\<open>opts\<close> in the source).\<close>

record opts =
  viewportBuffer :: real
  maxTextLength :: int
  includeHidden :: bool
  minWidth :: real
  minHeight :: real

definition applyDefaults :: "SnapshotOptions \<Rightarrow> opts" where
  "applyDefaults options =
     \<lparr> viewportBuffer = (case opt_viewportBuffer options of Some b \<Rightarrow> b | None \<Rightarrow> 1000),
       maxTextLength = (case opt_maxTextLength options of Some n \<Rightarrow> n | None \<Rightarrow> 100),
       includeHidden = (case opt_includeHidden options of Some h \<Rightarrow> h | None \<Rightarrow> False),
       minWidth = (case opt_minElementSize options of Some (w, h) \<Rightarrow> w | None \<Rightarrow> 1),
       minHeight = (case opt_minElementSize options of Some (w, h) \<Rightarrow> h | None \<Rightarrow> 1) \<rparr>"

definition defaultOptions :: SnapshotOptions where
  "defaultOptions =
     \<lparr> opt_viewportBuffer = None, opt_maxTextLength = None,
       opt_includeHidden = None, opt_minElementSize = None \<rparr>"

record DOMRect =
  rect_x :: real
  rect_y :: real
  rect_width :: real
  rect_height :: real

text \<open>\<^verbatim>\<open>top\<close> and \<^verbatim>\<open>bottom\<close> of a rectangle are derived from \<^verbatim>\<open>y\<close> and \<^verbatim>\<open>height\<close>.\<close>

definition rect_top :: "DOMRect \<Rightarrow> real" where
  "rect_top r = min (rect_y r) (rect_y r + rect_height r)"

definition rect_bottom :: "DOMRect \<Rightarrow> real" where
  "rect_bottom r = max (rect_y r) (rect_y r + rect_height r)"

text \<open>
  The computed style; \<open>opacity\<close> is the number \<^verbatim>\<open>parseFloat(computed.opacity)\<close>.
\<close>

record ComputedStyle =
  display :: string
  visibility :: string
  opacity :: real

text \<open>
  The \<^verbatim>\<open>value\<close> property of an element: absent, a string (form controls, buttons) or a
  number (\<^verbatim>\<open>progress\<close>, \<^verbatim>\<open>meter\<close> and \<^verbatim>\<open>li\<close> elements).
\<close>

datatype jsValue = Undefined | StringValue string | NumberValue real

text \<open>
  A live element: what the script reads from it, and its attributes, which the script
  writes. Attributes are an association list in attribute order.
\<close>

record Element =
  tagName :: string
  attributes :: "(string \<times> string) list"
  innerText :: string
  inputValue :: jsValue
  boundingClientRect :: DOMRect
  computedStyle :: ComputedStyle

definition getAttribute :: "Element \<Rightarrow> string \<Rightarrow> string option" where
  "getAttribute el name = map_of (attributes el) name"

definition setAttribute :: "string \<Rightarrow> string \<Rightarrow> Element \<Rightarrow> Element" where
  "setAttribute name v el = el\<lparr>attributes := AList.update name v (attributes el)\<rparr>"

record Bounds =
  bounds_x :: real
  bounds_y :: real
  bounds_width :: real
  bounds_height :: real

record ElementMetadata =
  mcpId :: nat
  md_tagName :: string
  md_text :: string
  md_role :: "string option"
  bounds :: Bounds

record OptimizedDOMResult =
  distilledHTML :: string
  elementMap :: "ElementMetadata list"
  totalElements :: nat
  visibleElements :: nat

section \<open>The script evaluated in one frame\<close>

text \<open>
  \<^verbatim>\<open>document.querySelectorAll(interactiveSelectors.join(','))\<close>: an element of an HTML
  document matches a type selector by its lower-cased tag name.
\<close>

definition matchesInteractive :: "Element \<Rightarrow> bool" where
  "matchesInteractive el =
     (let tag = toLowerCase (tagName el) in
        (tag = ''a'' \<and> getAttribute el ''href'' \<noteq> None)
      \<or> tag \<in> set [''button'', ''input'', ''textarea'', ''select'']
      \<or> (case getAttribute el ''role'' of
            None \<Rightarrow> False
          | Some r \<Rightarrow> r \<in> set [''button'', ''link'', ''tab'', ''menuitem'', ''option''])
      \<or> getAttribute el ''onclick'' \<noteq> None
      \<or> tag \<in> set [''h1'', ''h2'', ''h3'', ''h4'', ''h5'', ''h6'']
      \<or> tag = ''label''
      \<or> getAttribute el ''aria-label'' \<noteq> None
      \<or> getAttribute el ''title'' \<noteq> None)"

text \<open>The arguments handed to the script by \<^verbatim>\<open>frame.evaluate\<close>.\<close>

record evalOpts =
  eo_opts :: opts
  startId :: nat
  frameOffsetX :: real
  frameOffsetY :: real

text \<open>
  The early returns of the \<^verbatim>\<open>forEach\<close> callback, in the order of the source: the
  size check, then (unless \<open>includeHidden\<close>) the style check and the viewport check.
  \<open>True\<close> means that the callback goes on to assign an identifier.
\<close>

definition isRetained :: "evalOpts \<Rightarrow> real \<Rightarrow> real \<Rightarrow> Element \<Rightarrow> bool" where
  "isRetained eo viewportHeight scrollY el =
     (let rect = boundingClientRect el; computed = computedStyle el; os = eo_opts eo in
      if rect_width rect < minWidth os \<or> rect_height rect < minHeight os then False
      else if \<not> includeHidden os then
        (if display computed = ''none'' \<or> visibility computed = ''hidden'' \<or> opacity computed = 0
         then False
         else
           (let absoluteTop = rect_top rect + scrollY + frameOffsetY eo;
                absoluteBottom = rect_bottom rect + scrollY + frameOffsetY eo;
                viewportTop = scrollY - viewportBuffer os;
                viewportBottom = scrollY + viewportHeight + viewportBuffer os
            in if absoluteBottom < viewportTop \<or> absoluteTop > viewportBottom then False
               else True))
      else True)"

text \<open>An error with which the evaluation of the script in a frame ends.\<close>

datatype frameError = HostError string | TypeError string

text \<open>
  The value of the chain \<^verbatim>\<open>innerText || aria-label || placeholder || title || alt || value || ''\<close>:
  a string, or the number that \<^verbatim>\<open>el.value\<close> is when nothing before it is a non-empty
  string and the number is not zero.
\<close>

definition rawText :: "Element \<Rightarrow> jsValue" where
  "rawText el =
     (let s = firstTruthy
            [Some (innerText el), getAttribute el ''aria-label'', getAttribute el ''placeholder'',
             getAttribute el ''title'', getAttribute el ''alt'']
      in if s \<noteq> [] then StringValue s
         else (case inputValue el of
                 StringValue v \<Rightarrow> StringValue v
               | NumberValue n \<Rightarrow> (if n = 0 then StringValue [] else NumberValue n)
               | Undefined \<Rightarrow> StringValue []))"

text \<open>
  \<^verbatim>\<open>text.replace(/\s+/g, ' ').trim().slice(0, maxTextLength)\<close>: a number has no
  \<^verbatim>\<open>replace\<close>, so the call throws.
\<close>

definition extractText :: "int \<Rightarrow> Element \<Rightarrow> frameError + string" where
  "extractText maxLen el =
     (case rawText el of
        StringValue text \<Rightarrow> Inr (slice0 (trim (collapseSpaces text)) maxLen)
      | _ \<Rightarrow> Inl (TypeError ''text.replace is not a function''))"

definition buildHtml :: "Element \<Rightarrow> nat \<Rightarrow> string \<Rightarrow> string" where
  \<open>buildHtml el i text =
     (let tag = toLowerCase (tagName el);
          role = getAttribute el ''role'';
          type = getAttribute el ''type'';
          name = getAttribute el ''name'';
          html = ''<'' @ tag;
          html = html @ '' id="'' @ String i @ ''"'';
          html = (if truthy role then html @ '' role="'' @ the role @ ''"'' else html);
          html = (if truthy type then html @ '' type="'' @ the type @ ''"'' else html);
          html = (if truthy name then html @ '' name="'' @ the name @ ''"'' else html)
      in if text \<noteq> [] then html @ ''>'' @ text @ ''</'' @ tag @ ''>'' else html @ '' />'')\<close>

definition buildMetadata ::
  "real \<Rightarrow> real \<Rightarrow> Element \<Rightarrow> nat \<Rightarrow> string \<Rightarrow> ElementMetadata" where
  "buildMetadata offX offY el i text =
     (let rect = boundingClientRect el; role = getAttribute el ''role'' in
      \<lparr> mcpId = i,
        md_tagName = toLowerCase (tagName el),
        md_text = text,
        md_role = (if truthy role then role else None),
        bounds = \<lparr> bounds_x = rect_x rect + offX, bounds_y = rect_y rect + offY,
                   bounds_width = rect_width rect, bounds_height = rect_height rect \<rparr> \<rparr>)"

text \<open>
  The mutable variables of the script: \<open>idCounter\<close>, \<open>distilledHTML\<close> and \<open>elementMap\<close>.
\<close>

record scriptState =
  idCounter :: nat
  ss_distilledHTML :: "string list"
  ss_elementMap :: "ElementMetadata list"

text \<open>
  One call of the \<^verbatim>\<open>forEach\<close> callback on a selected element: the element as the call
  leaves it, and either the variables as the call leaves them or the error it throws. The
  callback takes the identifier and writes the marker before it extracts the text, so a
  call that throws has already marked the element.
\<close>

definition visitElement ::
  "evalOpts \<Rightarrow> real \<Rightarrow> real \<Rightarrow> Element \<Rightarrow> scriptState
     \<Rightarrow> Element \<times> (frameError + scriptState)" where
  "visitElement eo viewportHeight scrollY el st =
     (if \<not> isRetained eo viewportHeight scrollY el then (el, Inr st)
      else
        (let i = idCounter st;
             el' = setAttribute ''data-mcp-id'' (String i) el
         in case extractText (maxTextLength (eo_opts eo)) el' of
              Inl err \<Rightarrow> (el', Inl err)
            | Inr text \<Rightarrow>
                (el',
                 Inr \<lparr> idCounter = i + 1,
                       ss_distilledHTML = ss_distilledHTML st @ [buildHtml el' i text],
                       ss_elementMap = ss_elementMap st @
                         [buildMetadata (frameOffsetX eo) (frameOffsetY eo) el' i text] \<rparr>)))"

text \<open>
  The \<^verbatim>\<open>forEach\<close> loop, run over the document in document order: the callback is called
  on the elements that the selector list selects, and the other elements are passed over.
  When a call throws, the loop ends there and the elements after it are not visited.
\<close>

fun forEachElement ::
  "evalOpts \<Rightarrow> real \<Rightarrow> real \<Rightarrow> Element list \<Rightarrow> scriptState
     \<Rightarrow> Element list \<times> (frameError + scriptState)" where
  "forEachElement eo vh sy [] st = ([], Inr st)"
| "forEachElement eo vh sy (el # els) st =
     (if matchesInteractive el then
        (case visitElement eo vh sy el st of
           (el', Inl err) \<Rightarrow> (el' # els, Inl err)
         | (el', Inr st') \<Rightarrow>
             (case forEachElement eo vh sy els st' of (els', r) \<Rightarrow> (el' # els', r)))
      else (case forEachElement eo vh sy els st of (els', r) \<Rightarrow> (el # els', r)))"

text \<open>
  What the host does with \<^verbatim>\<open>frame.evaluate\<close>: it runs the script, or it rejects before the
  script has run (the frame went away or navigated), or the call never settles.
\<close>

datatype evaluateOutcome = Runs | RejectsBefore string | NeverSettles

text \<open>
  The window of one frame: \<^verbatim>\<open>window.innerHeight\<close>, \<^verbatim>\<open>window.scrollY\<close>, the elements
  of its document in document order, and what the host does with the evaluation.
\<close>

record FrameWindow =
  innerHeight :: real
  window_scrollY :: real
  document :: "Element list"
  hostOutcome :: evaluateOutcome

record frameResult =
  fr_distilledHTML :: "string list"
  fr_elementMap :: "ElementMetadata list"
  fr_totalElements :: nat
  nextId :: nat

text \<open>
  The script: its result or the error it throws, and the window as it leaves it.
\<close>

definition evaluateScript ::
  "evalOpts \<Rightarrow> FrameWindow \<Rightarrow> (frameError + frameResult) \<times> FrameWindow" where
  "evaluateScript eo w =
     (case forEachElement eo (innerHeight w) (window_scrollY w) (document w)
             \<lparr> idCounter = startId eo, ss_distilledHTML = [], ss_elementMap = [] \<rparr> of
        (els', Inl err) \<Rightarrow> (Inl err, w\<lparr>document := els'\<rparr>)
      | (els', Inr st) \<Rightarrow>
          (Inr \<lparr> fr_distilledHTML = ss_distilledHTML st,
                 fr_elementMap = ss_elementMap st,
                 fr_totalElements = length (filter matchesInteractive (document w)),
                 nextId = idCounter st \<rparr>,
           w\<lparr>document := els'\<rparr>))"

section \<open>The pass over all frames: \<^verbatim>\<open>captureOptimizedSnapshot\<close>\<close>

text \<open>
  What the host returns for the embedding element of a frame: \<^verbatim>\<open>frameElement()\<close> or
  \<^verbatim>\<open>boundingBox()\<close> throws, the handle is missing, the box is \<^verbatim>\<open>null\<close>, or there is a box.
\<close>

datatype boxOutcome = BoxThrows | NoFrameElement | NoBoundingBox | BoundingBox DOMRect

text \<open>
  A frame handle of the host: its identity, \<^verbatim>\<open>parentFrame()\<close>, \<^verbatim>\<open>isDetached()\<close> and the
  outcome of asking for the box of its embedding element.
\<close>

datatype Frame =
  Frame (frameId: nat) (parentFrame: "Frame option") (isDetached: bool) (frameElementBox: boxOutcome)

text \<open>
  The \<^verbatim>\<open>while (currentFrame !== page.mainFrame())\<close> loop, with \<open>frameOffsetX\<close> and
  \<open>frameOffsetY\<close> as the accumulator.
\<close>

fun offsetLoop :: "nat \<Rightarrow> Frame \<Rightarrow> real \<times> real \<Rightarrow> real \<times> real" where
  "offsetLoop mainId (Frame fid parent detached fe) (offX, offY) =
     (if fid = mainId then (offX, offY)
      else
        (case parent of
           None \<Rightarrow> (offX, offY)
         | Some p \<Rightarrow>
             offsetLoop mainId p
               (case fe of
                  BoundingBox box \<Rightarrow> (offX + rect_x box, offY + rect_y box)
                | _ \<Rightarrow> (offX, offY))))"

text \<open>A page: \<^verbatim>\<open>page.frames()\<close>, each frame with its window, and \<^verbatim>\<open>page.mainFrame()\<close>.\<close>

record Page =
  frames :: "(Frame \<times> FrameWindow) list"
  mainFrameId :: nat

text \<open>
  The variables of the pass: \<open>globalIdCounter\<close>, \<open>allResults\<close>, the errors that
  \<^verbatim>\<open>console.warn\<close> has printed (each as \<^verbatim>\<open>Error processing frame: \<close> and the error), and
  whether the pass waits for an evaluation that never settles.
\<close>

record passState =
  globalIdCounter :: nat
  allResults :: "frameResult list"
  consoleWarnings :: "frameError list"
  stuck :: bool

text \<open>
  The body of \<^verbatim>\<open>for (const frame of allFrames)\<close>, with its \<^verbatim>\<open>try\<close>/\<^verbatim>\<open>catch\<close>. The counter
  is taken over from the script only when the script returns.
\<close>

definition processFrame ::
  "nat \<Rightarrow> opts \<Rightarrow> Frame \<times> FrameWindow \<Rightarrow> passState \<Rightarrow> FrameWindow \<times> passState" where
  "processFrame mainId os fw st =
     (case fw of (frame, w) \<Rightarrow>
        if isDetached frame then (w, st)
        else
          (case offsetLoop mainId frame (0, 0) of (offX, offY) \<Rightarrow>
             (case hostOutcome w of
                NeverSettles \<Rightarrow> (w, st\<lparr>stuck := True\<rparr>)
              | RejectsBefore err \<Rightarrow>
                  (w, st\<lparr>consoleWarnings := consoleWarnings st @ [HostError err]\<rparr>)
              | Runs \<Rightarrow>
                  (case evaluateScript
                          \<lparr> eo_opts = os, startId = globalIdCounter st,
                            frameOffsetX = offX, frameOffsetY = offY \<rparr> w of
                     (Inl err, w') \<Rightarrow>
                       (w', st\<lparr>consoleWarnings := consoleWarnings st @ [err]\<rparr>)
                   | (Inr frameRes, w') \<Rightarrow>
                       (w', st\<lparr>globalIdCounter := nextId frameRes,
                               allResults := allResults st @ [frameRes]\<rparr>)))))"

text \<open>
  The loop over the frames. A pass that waits for an evaluation that never settles does
  not get to the frames after it.
\<close>

fun framesLoop ::
  "nat \<Rightarrow> opts \<Rightarrow> (Frame \<times> FrameWindow) list \<Rightarrow> passState
     \<Rightarrow> (Frame \<times> FrameWindow) list \<times> passState" where
  "framesLoop mainId os [] st = ([], st)"
| "framesLoop mainId os (fw # fws) st =
     (case processFrame mainId os fw st of
        (w', st') \<Rightarrow>
          if stuck st' then ((fst fw, w') # fws, st')
          else
            (case framesLoop mainId os fws st' of
               (fws', st'') \<Rightarrow> ((fst fw, w') # fws', st'')))"

text \<open>The merge of the per-frame results into the result of the pass.\<close>

definition mergeResults :: "frameResult list \<Rightarrow> OptimizedDOMResult" where
  "mergeResults results =
     (let mergedDistilledHTML = concat (map fr_distilledHTML results);
          mergedElementMap = concat (map fr_elementMap results)
      in \<lparr> distilledHTML = joinLines mergedDistilledHTML,
           elementMap = mergedElementMap,
           totalElements = sum_list (map fr_totalElements results),
           visibleElements = length mergedElementMap \<rparr>)"

text \<open>How a promise settles, if it does.\<close>

datatype 'a promise = Resolved 'a | Rejected string | Pending

text \<open>
  What a pass leaves behind: the promise it returns, the page with the attributes the
  script has written, and the warnings printed.
\<close>

record passOutcome =
  returned :: "OptimizedDOMResult promise"
  pageAfter :: Page
  warnings :: "frameError list"

definition initialPassState :: passState where
  "initialPassState =
     \<lparr> globalIdCounter = 1, allResults = [], consoleWarnings = [], stuck = False \<rparr>"

definition captureOptimizedSnapshot :: "Page \<Rightarrow> SnapshotOptions \<Rightarrow> passOutcome" where
  "captureOptimizedSnapshot page options =
     (case framesLoop (mainFrameId page) (applyDefaults options) (frames page) initialPassState of
        (fws', st) \<Rightarrow>
          \<lparr> returned = (if stuck st then Pending else Resolved (mergeResults (allResults st))),
            pageAfter = page\<lparr>frames := fws'\<rparr>,
            warnings = consoleWarnings st \<rparr>)"

section \<open>The legacy traversal: \<^verbatim>\<open>collectAllElements\<close>\<close>

text \<open>
  The legacy script walks the documents of same-origin iframes itself. Documents and
  elements are named by numbers; a document graph gives, for each document, what
  \<^verbatim>\<open>querySelectorAll\<close> returns for the selector list and for \<^verbatim>\<open>'iframe'\<close> (\<open>None\<close> when the
  call throws). The graph may be cyclic.
\<close>

datatype contentAccess = AccessThrows | NoContentDocument | ContentDocument nat

record IFrameElement =
  iframe_src :: string
  iframe_content :: contentAccess

record LegacyDocument =
  ld_elements :: "nat list option"
  ld_iframes :: "IFrameElement list option"

text \<open>
  The state the traversal writes: the \<^verbatim>\<open>__iframeChain\<close> property of each element (the
  last write wins), and what \<^verbatim>\<open>console.warn\<close> has printed.
\<close>

record collectState =
  iframeChainOf :: "(nat \<times> IFrameElement list) list"
  collectWarnings :: "string list"

definition MAX_DEPTH :: nat where
  "MAX_DEPTH = 10"

definition warn :: "string \<Rightarrow> collectState \<Rightarrow> collectState" where
  "warn msg st = st\<lparr>collectWarnings := collectWarnings st @ [msg]\<rparr>"

definition attachChain :: "IFrameElement list \<Rightarrow> nat list \<Rightarrow> collectState \<Rightarrow> collectState" where
  "attachChain iframeChain els st =
     st\<lparr>iframeChainOf := fold (\<lambda>el store. AList.update el iframeChain store) els (iframeChainOf st)\<rparr>"

function collectAllElements ::
  "(nat \<Rightarrow> LegacyDocument) \<Rightarrow> nat \<Rightarrow> IFrameElement list \<Rightarrow> nat \<Rightarrow> collectState
     \<Rightarrow> nat list \<times> collectState" where
  "collectAllElements g doc iframeChain depth st =
     (if depth > MAX_DEPTH then
        ([], warn ''iframe nesting too deep (>10), stopping recursion'' st)
      else
        (case (case ld_elements (g doc) of
                 None \<Rightarrow> ([], warn ''Error querying elements:'' st)
               | Some els \<Rightarrow> (els, attachChain iframeChain els st)) of
           (allElements, st1) \<Rightarrow>
             (case ld_iframes (g doc) of
                None \<Rightarrow> (allElements, warn ''Error iterating iframes:'' st1)
              | Some iframes \<Rightarrow>
                  fold (\<lambda>iframe (acc, s).
                          (case iframe_content iframe of
                             AccessThrows \<Rightarrow>
                               (acc, warn (''Cannot access iframe (cross-origin): '' @
                                  (if iframe_src iframe \<noteq> [] then iframe_src iframe
                                   else ''(no src)'')) s)
                           | NoContentDocument \<Rightarrow> (acc, s)
                           | ContentDocument iframeDoc \<Rightarrow>
                               (case collectAllElements g iframeDoc (iframeChain @ [iframe])
                                       (depth + 1) s of
                                  (iframeElements, s') \<Rightarrow> (acc @ iframeElements, s'))))
                       iframes (allElements, st1))))"
  by pat_completeness auto
termination
  by (relation "measure (\<lambda>(g, doc, iframeChain, depth, st). Suc MAX_DEPTH - depth)") auto

declare collectAllElements.simps [simp del]

section \<open>Resolving an identifier: \<^verbatim>\<open>getElementByMcpId\<close>\<close>

text \<open>
  A locator of the host, made by \<^verbatim>\<open>page.locator(selector)\<close>: it holds the selector and
  belongs to the page, not to a frame.
\<close>

datatype locator = PageLocator string

definition mcpIdSelector :: "jsNumber \<Rightarrow> string" where
  \<open>mcpIdSelector n = ''[data-mcp-id="'' @ numberToString n @ ''"]''\<close>

definition getElementByMcpId :: "jsNumber \<Rightarrow> locator promise" where
  "getElementByMcpId n = Resolved (PageLocator (mcpIdSelector n))"




definition allElements :: "Page \<Rightarrow> Element list" where
  "allElements page = concat (map (\<lambda>fw. document (snd fw)) (frames page))"

section \<open>The action tools: click, drag, hover, select\<close>

datatype mouseButton = ButtonLeft | ButtonRight | ButtonMiddle

fun buttonName :: "mouseButton \<Rightarrow> string" where
  "buttonName ButtonLeft = ''left''"
| "buttonName ButtonRight = ''right''"
| "buttonName ButtonMiddle = ''middle''"

text \<open>The parameters of \<open>elementSchema\<close>, and of the schemas that extend it.\<close>

record elementParams =
  p_element :: string
  p_ref :: "string option"
  p_mcpId :: "jsNumber option"

record clickParams = elementParams +
  p_doubleClick :: "bool option"
  p_button :: "mouseButton option"

record selectOptionParams = elementParams +
  p_values :: "string list"

record dragParams =
  p_startElement :: string
  p_startRef :: "string option"
  p_startMcpId :: "jsNumber option"
  p_endElement :: string
  p_endRef :: "string option"
  p_endMcpId :: "jsNumber option"

text \<open>The interactions with the page that a tool runs inside \<^verbatim>\<open>tab.waitForCompletion\<close>.\<close>

datatype interaction =
    DoClick locator "mouseButton option"
  | DoDblClick locator "mouseButton option"
  | DoHover locator
  | DoSelectOption locator "string list"
  | DoDragTo locator locator

text \<open>
  What a tool does, in order: calls on the response, look-ups of locators, and
  interactions with the page.
\<close>

datatype event =
    SetIncludeSnapshot
  | AddCode string
  | CallGetElementByMcpId jsNumber
  | CallRefLocator string string
  | CallRefLocators "(string \<times> string)" "(string \<times> string)"
  | Interact interaction

text \<open>
  The parts of the tab and of the code generator that the tools call and that are not
  part of this development: how a reference resolves, how a locator and a value list
  are printed, and how an interaction ends.
\<close>

record Tab =
  refLocator :: "string \<Rightarrow> string \<Rightarrow> locator promise"
  refLocators :: "string \<times> string \<Rightarrow> string \<times> string \<Rightarrow> (locator \<times> locator) promise"
  generateLocator :: "locator \<Rightarrow> string"
  formatObject :: "string list \<Rightarrow> string"
  waitForCompletion :: "interaction \<Rightarrow> unit promise"

definition buttonAttr :: "mouseButton option \<Rightarrow> string" where
  "buttonAttr button =
     (case button of
        Some b \<Rightarrow> ''{ button: '' @ [CHR 0x27] @ buttonName b @ [CHR 0x27] @ '' }''
      | None \<Rightarrow> [])"

definition mcpIdCode :: "jsNumber \<Rightarrow> string" where
  "mcpIdCode i = ''page.locator('' @ [CHR 0x27] @ mcpIdSelector i @ [CHR 0x27] @ '')''"

definition click :: "Tab \<Rightarrow> clickParams \<Rightarrow> unit promise \<times> event list" where
  "click tab params =
     (let tr = [SetIncludeSnapshot];
          dbl = (p_doubleClick params = Some True);
          method = (if dbl then ''.dblclick('' else ''.click('');
          act = (\<lambda>locator. if dbl then DoDblClick locator (p_button params)
                            else DoClick locator (p_button params))
      in case p_mcpId params of
           Some i \<Rightarrow>
             (case getElementByMcpId i of
                Rejected e \<Rightarrow> (Rejected e, tr @ [CallGetElementByMcpId i])
              | Resolved locator \<Rightarrow>
                  (waitForCompletion tab (act locator),
                   tr @ [CallGetElementByMcpId i,
                         AddCode (''await '' @ mcpIdCode i @ method @
                                  buttonAttr (p_button params) @ '');''),
                         Interact (act locator)]))
         | None \<Rightarrow>
             if truthy (p_ref params) then
               (case refLocator tab (p_element params) (the (p_ref params)) of
                  Rejected e \<Rightarrow>
                    (Rejected e, tr @ [CallRefLocator (p_element params) (the (p_ref params))])
                | Resolved locator \<Rightarrow>
                    (waitForCompletion tab (act locator),
                     tr @ [CallRefLocator (p_element params) (the (p_ref params)),
                           AddCode (''await page.'' @ generateLocator tab locator @ method @
                                    buttonAttr (p_button params) @ '');''),
                           Interact (act locator)]))
             else (Rejected ''Either ref or mcpId must be provided'', tr))"

definition drag :: "Tab \<Rightarrow> dragParams \<Rightarrow> unit promise \<times> event list" where
  "drag tab params =
     (let tr = [SetIncludeSnapshot] in
      case (p_startMcpId params, p_endMcpId params) of
        (Some s, Some e) \<Rightarrow>
          (case getElementByMcpId s of
             Rejected err \<Rightarrow> (Rejected err, tr @ [CallGetElementByMcpId s])
           | Resolved startLocator \<Rightarrow>
               (case getElementByMcpId e of
                  Rejected err \<Rightarrow>
                    (Rejected err, tr @ [CallGetElementByMcpId s, CallGetElementByMcpId e])
                | Resolved endLocator \<Rightarrow>
                    (waitForCompletion tab (DoDragTo startLocator endLocator),
                     tr @ [CallGetElementByMcpId s, CallGetElementByMcpId e,
                           AddCode (''await '' @ mcpIdCode s @ ''.dragTo('' @ mcpIdCode e @ '');''),
                           Interact (DoDragTo startLocator endLocator)])))
      | _ \<Rightarrow>
          if truthy (p_startRef params) \<and> truthy (p_endRef params) then
            (let a = (the (p_startRef params), p_startElement params);
                 b = (the (p_endRef params), p_endElement params)
             in case refLocators tab a b of
                  Rejected err \<Rightarrow> (Rejected err, tr @ [CallRefLocators a b])
                | Resolved (startLocator, endLocator) \<Rightarrow>
                    (waitForCompletion tab (DoDragTo startLocator endLocator),
                     tr @ [CallRefLocators a b,
                           AddCode (''await page.'' @ generateLocator tab startLocator @
                                    ''.dragTo(page.'' @ generateLocator tab endLocator @ '');''),
                           Interact (DoDragTo startLocator endLocator)]))
          else (Rejected ''Either both refs or both mcpIds must be provided'', tr))"

definition hover :: "Tab \<Rightarrow> elementParams \<Rightarrow> unit promise \<times> event list" where
  "hover tab params =
     (let tr = [SetIncludeSnapshot] in
      case p_mcpId params of
        Some i \<Rightarrow>
          (case getElementByMcpId i of
             Rejected e \<Rightarrow> (Rejected e, tr @ [CallGetElementByMcpId i])
           | Resolved locator \<Rightarrow>
               (waitForCompletion tab (DoHover locator),
                tr @ [CallGetElementByMcpId i,
                      AddCode (''await '' @ mcpIdCode i @ ''.hover();''),
                      Interact (DoHover locator)]))
      | None \<Rightarrow>
          if truthy (p_ref params) then
            (case refLocator tab (p_element params) (the (p_ref params)) of
               Rejected e \<Rightarrow>
                 (Rejected e, tr @ [CallRefLocator (p_element params) (the (p_ref params))])
             | Resolved locator \<Rightarrow>
                 (waitForCompletion tab (DoHover locator),
                  tr @ [CallRefLocator (p_element params) (the (p_ref params)),
                        AddCode (''await page.'' @ generateLocator tab locator @ ''.hover();''),
                        Interact (DoHover locator)]))
          else (Rejected ''Either ref or mcpId must be provided'', tr))"

definition selectOption :: "Tab \<Rightarrow> selectOptionParams \<Rightarrow> unit promise \<times> event list" where
  "selectOption tab params =
     (let tr = [SetIncludeSnapshot];
          vals = p_values params
      in case p_mcpId params of
        Some i \<Rightarrow>
          (case getElementByMcpId i of
             Rejected e \<Rightarrow> (Rejected e, tr @ [CallGetElementByMcpId i])
           | Resolved locator \<Rightarrow>
               (waitForCompletion tab (DoSelectOption locator vals),
                tr @ [CallGetElementByMcpId i,
                      AddCode (''await '' @ mcpIdCode i @ ''.selectOption('' @
                               formatObject tab vals @ '');''),
                      Interact (DoSelectOption locator vals)]))
      | None \<Rightarrow>
          if truthy (p_ref params) then
            (case refLocator tab (p_element params) (the (p_ref params)) of
               Rejected e \<Rightarrow>
                 (Rejected e, tr @ [CallRefLocator (p_element params) (the (p_ref params))])
             | Resolved locator \<Rightarrow>
                 (waitForCompletion tab (DoSelectOption locator vals),
                  tr @ [CallRefLocator (p_element params) (the (p_ref params)),
                        AddCode (''await page.'' @ generateLocator tab locator @
                                 ''.selectOption('' @ formatObject tab vals @ '');''),
                        Interact (DoSelectOption locator vals)]))
          else (Rejected ''Either ref or mcpId must be provided'', tr))"

section \<open>Notions used in the statements\<close>

text \<open>The elements on which the callback runs to its end: selected and not rejected.\<close>

definition selected :: "evalOpts \<Rightarrow> real \<Rightarrow> real \<Rightarrow> Element \<Rightarrow> bool" where
  "selected eo viewportHeight scrollY el =
     (matchesInteractive el \<and> isRetained eo viewportHeight scrollY el)"

text \<open>The arguments with which the pass evaluates the script in a frame.\<close>

definition frameEvalOpts :: "nat \<Rightarrow> opts \<Rightarrow> nat \<Rightarrow> Frame \<Rightarrow> evalOpts" where
  "frameEvalOpts mainId os c frame =
     \<lparr> eo_opts = os, startId = c,
       frameOffsetX = fst (offsetLoop mainId frame (0, 0)),
       frameOffsetY = snd (offsetLoop mainId frame (0, 0)) \<rparr>"

text \<open>
  The position of the embedding element of a frame as the host reports it, and zero when
  the host reports none.
\<close>

definition linkOffset :: "Frame \<Rightarrow> real \<times> real" where
  "linkOffset f =
     (case frameElementBox f of BoundingBox box \<Rightarrow> (rect_x box, rect_y box) | _ \<Rightarrow> (0, 0))"

text \<open>
  The ancestor chain of a frame: the frame itself and its ancestors, up to the main frame
  (or a frame without parent), which is not part of the chain.
\<close>

fun ancestorLinks :: "nat \<Rightarrow> Frame \<Rightarrow> Frame list" where
  "ancestorLinks mainId (Frame fid parent detached fe) =
     (if fid = mainId then []
      else (case parent of
              None \<Rightarrow> []
            | Some p \<Rightarrow> Frame fid parent detached fe # ancestorLinks mainId p))"

text \<open>An element with the marker of an identifier written to it.\<close>

definition marked :: "nat \<Rightarrow> Element \<Rightarrow> Element" where
  "marked i el = setAttribute ''data-mcp-id'' (String i) el"

text \<open>The label that the script extracts from an element, when the extraction does not throw.\<close>

definition labelOf :: "int \<Rightarrow> Element \<Rightarrow> string" where
  "labelOf maxLen el = (case extractText maxLen el of Inr text \<Rightarrow> text | Inl err \<Rightarrow> [])"


text \<open>
  The error with which the evaluation of a frame fails, if it does, when the script is
  started with counter \<open>c\<close>: the host rejects before the script runs, or the script throws.
\<close>

definition frameFailure :: "nat \<Rightarrow> opts \<Rightarrow> nat \<Rightarrow> Frame \<times> FrameWindow \<Rightarrow> frameError option" where
  "frameFailure mainId os c fw =
     (case hostOutcome (snd fw) of
        RejectsBefore err \<Rightarrow> Some (HostError err)
      | NeverSettles \<Rightarrow> None
      | Runs \<Rightarrow>
          (case fst (evaluateScript (frameEvalOpts mainId os c (fst fw)) (snd fw)) of
             Inl err \<Rightarrow> Some err
           | Inr res \<Rightarrow> None))"

text \<open>No element has a chain of more than \<open>MAX_DEPTH\<close> iframes attached.\<close>

definition chainsBounded :: "collectState \<Rightarrow> bool" where
  "chainsBounded st = list_all (\<lambda>entry. length (snd entry) \<le> MAX_DEPTH) (iframeChainOf st)"

section \<open>Example inputs\<close>

definition plainStyle :: ComputedStyle where
  "plainStyle = \<lparr> display = ''block'', visibility = ''visible'', opacity = 1 \<rparr>"

definition buttonAt :: "real \<Rightarrow> real \<Rightarrow> real \<Rightarrow> real \<Rightarrow> Element" where
  "buttonAt x y w h =
     \<lparr> tagName = ''BUTTON'', attributes = [], innerText = ''OK'', inputValue = StringValue [],
       boundingClientRect = \<lparr> rect_x = x, rect_y = y, rect_width = w, rect_height = h \<rparr>,
       computedStyle = plainStyle \<rparr>"

definition defaultEvalOpts :: evalOpts where
  "defaultEvalOpts =
     \<lparr> eo_opts = applyDefaults defaultOptions, startId = 1, frameOffsetX = 0, frameOffsetY = 0 \<rparr>"

definition hiddenButton :: Element where
  "hiddenButton =
     \<lparr> tagName = ''BUTTON'', attributes = [], innerText = ''Secret'', inputValue = StringValue [],
       boundingClientRect = \<lparr> rect_x = 0, rect_y = 0, rect_width = 0, rect_height = 0 \<rparr>,
       computedStyle = \<lparr> display = ''none'', visibility = ''visible'', opacity = 1 \<rparr> \<rparr>"

text \<open>
  A progress bar with a click handler and no text: it is selected and retained, and its
  \<^verbatim>\<open>value\<close> is a number.
\<close>

definition progressBar :: Element where
  "progressBar =
     \<lparr> tagName = ''PROGRESS'', attributes = [(''onclick'', ''step()'')], innerText = [],
       inputValue = NumberValue (1 / 2),
       boundingClientRect = \<lparr> rect_x = 10, rect_y = 60, rect_width = 160, rect_height = 16 \<rparr>,
       computedStyle = plainStyle \<rparr>"

definition mainFrame0 :: Frame where
  "mainFrame0 = Frame 0 None False NoFrameElement"

definition windowOf :: "Element list \<Rightarrow> FrameWindow" where
  "windowOf els =
     \<lparr> innerHeight = 600, window_scrollY = 0, document = els, hostOutcome = Runs \<rparr>"

text \<open>A page with one button that is not displayed and one ordinary button.\<close>

definition twoButtonPage :: Page where
  "twoButtonPage =
     \<lparr> frames = [(mainFrame0, windowOf [hiddenButton, buttonAt 10 20 80 30])], mainFrameId = 0 \<rparr>"

text \<open>
  Frame A sits at \<open>(10, 20)\<close> in the main frame and frame B at \<open>(50, 100)\<close> in frame A. The
  host reports the box of an embedding element relative to the viewport of the main frame:
  for frame A at \<open>(10, 20)\<close>, for frame B at \<open>(10 + 50, 20 + 100)\<close>. A button sits at
  \<open>(5, 5)\<close> in frame B.
\<close>

definition frameA :: Frame where
  "frameA = Frame 1 (Some mainFrame0) False
     (BoundingBox \<lparr> rect_x = 10, rect_y = 20, rect_width = 400, rect_height = 300 \<rparr>)"

definition frameB :: Frame where
  "frameB = Frame 2 (Some frameA) False
     (BoundingBox \<lparr> rect_x = 10 + 50, rect_y = 20 + 100, rect_width = 200, rect_height = 150 \<rparr>)"

definition nestedPage :: Page where
  "nestedPage =
     \<lparr> frames = [(mainFrame0, windowOf []), (frameA, windowOf []),
                 (frameB, windowOf [buttonAt 5 5 80 30])],
       mainFrameId = 0 \<rparr>"

text \<open>A page with retained elements in two frames.\<close>

definition twoFramePage :: Page where
  "twoFramePage =
     \<lparr> frames = [(mainFrame0, windowOf [buttonAt 10 20 80 30, hiddenButton]),
                 (frameA, windowOf [buttonAt 5 5 80 30])],
       mainFrameId = 0 \<rparr>"

text \<open>
  A page whose main frame holds a button and the progress bar, and whose embedded frame
  holds a button.
\<close>

definition throwingPage :: Page where
  "throwingPage =
     \<lparr> frames = [(mainFrame0, windowOf [buttonAt 10 20 80 30, progressBar]),
                 (frameA, windowOf [buttonAt 5 5 80 30])],
       mainFrameId = 0 \<rparr>"

text \<open>A window in which the host rejects the evaluation, and one in which it never settles.\<close>

definition failingWindow :: FrameWindow where
  "failingWindow =
     (windowOf [buttonAt 10 20 80 30])\<lparr>hostOutcome := RejectsBefore ''Target closed''\<rparr>"

definition hangingWindow :: FrameWindow where
  "hangingWindow = (windowOf [buttonAt 10 20 80 30])\<lparr>hostOutcome := NeverSettles\<rparr>"

definition failingPage :: Page where
  "failingPage = \<lparr> frames = [(mainFrame0, failingWindow)], mainFrameId = 0 \<rparr>"

definition hangingPage :: Page where
  "hangingPage =
     \<lparr> frames = [(mainFrame0, hangingWindow), (frameA, windowOf [buttonAt 5 5 80 30])],
       mainFrameId = 0 \<rparr>"

text \<open>A tab on which every look-up and every interaction succeeds.\<close>

definition idleTab :: Tab where
  "idleTab =
     \<lparr> refLocator = (\<lambda>element ref. Resolved (PageLocator (''aria-ref='' @ ref))),
       refLocators = (\<lambda>a b. Resolved (PageLocator (''aria-ref='' @ fst a),
                                         PageLocator (''aria-ref='' @ fst b))),
       generateLocator = (\<lambda>l. case l of PageLocator sel \<Rightarrow> ''locator('' @ sel @ '')''),
       formatObject = concat,
       waitForCompletion = (\<lambda>a. Resolved ()) \<rparr>"

text \<open>
  Frames nested eleven deep: frame \<open>n\<close> is embedded in frame \<open>n - 1\<close>, the host reports the
  box of every embedding element at \<open>(1, 1)\<close>, and the innermost frame holds a button.
\<close>

primrec nestedFrame :: "nat \<Rightarrow> Frame" where
  "nestedFrame 0 = mainFrame0"
| "nestedFrame (Suc n) =
     Frame (Suc n) (Some (nestedFrame n)) False
       (BoundingBox \<lparr> rect_x = 1, rect_y = 1, rect_width = 900, rect_height = 900 \<rparr>)"

definition deepPage :: Page where
  "deepPage =
     \<lparr> frames = map (\<lambda>n. (nestedFrame n, windowOf [])) [0 ..< 11]
                  @ [(nestedFrame 11, windowOf [buttonAt 5 5 80 30])],
       mainFrameId = 0 \<rparr>"

text \<open>
  A cyclic document graph: every document holds one element and one iframe whose content
  is document 0.
\<close>

definition loopFrame :: IFrameElement where
  "loopFrame = \<lparr> iframe_src = ''loop.html'', iframe_content = ContentDocument 0 \<rparr>"

definition selfEmbedding :: "nat \<Rightarrow> LegacyDocument" where
  "selfEmbedding = (\<lambda>doc. \<lparr> ld_elements = Some [7], ld_iframes = Some [loopFrame] \<rparr>)"




section \<open>Facts about the script and the pass\<close>

lemma getAttribute_setAttribute:
  "getAttribute (setAttribute n v el) m = (if m = n then Some v else getAttribute el m)"
  by (simp add: getAttribute_def setAttribute_def update_conv)

lemma rect_top_le_bottom: "rect_top r \<le> rect_bottom r"
  by (simp add: rect_top_def rect_bottom_def)


lemma setAttribute_fields:
  "tagName (setAttribute n v el) = tagName el"
  "innerText (setAttribute n v el) = innerText el"
  "inputValue (setAttribute n v el) = inputValue el"
  "boundingClientRect (setAttribute n v el) = boundingClientRect el"
  "computedStyle (setAttribute n v el) = computedStyle el"
  by (simp_all add: setAttribute_def)

lemma rawText_marked: "rawText (marked i el) = rawText el"
  by (simp add: rawText_def marked_def getAttribute_setAttribute setAttribute_fields Let_def
      cong: if_cong)

lemma extractText_marked: "extractText maxLen (marked i el) = extractText maxLen el"
  by (simp add: extractText_def rawText_marked)

lemma buildMetadata_marked:
  "buildMetadata offX offY (marked i el) j text = buildMetadata offX offY el j text"
  by (simp add: buildMetadata_def marked_def getAttribute_setAttribute setAttribute_fields)

lemma buildHtml_marked: "buildHtml (marked i el) j text = buildHtml el j text"
  by (simp add: buildHtml_def marked_def getAttribute_setAttribute setAttribute_fields)







text \<open>The three ways in which the loop treats the first element.\<close>

lemma forEachElement_skip:
  "\<not> selected eo vh sy el \<Longrightarrow>
   forEachElement eo vh sy (el # els) st =
     (el # fst (forEachElement eo vh sy els st), snd (forEachElement eo vh sy els st))"
  by (auto simp: selected_def visitElement_def split_beta)

lemma forEachElement_throw:
  "selected eo vh sy el \<Longrightarrow> extractText (maxTextLength (eo_opts eo)) el = Inl err \<Longrightarrow>
   forEachElement eo vh sy (el # els) st = (marked (idCounter st) el # els, Inl err)"
  using extractText_marked[of "maxTextLength (eo_opts eo)" "idCounter st" el]
  by (simp add: selected_def visitElement_def Let_def marked_def)

lemma forEachElement_retain:
  assumes "selected eo vh sy el" and "extractText (maxTextLength (eo_opts eo)) el = Inr text"
  shows "forEachElement eo vh sy (el # els) st =
     (marked (idCounter st) el
        # fst (forEachElement eo vh sy els
            \<lparr> idCounter = idCounter st + 1,
              ss_distilledHTML = ss_distilledHTML st @ [buildHtml el (idCounter st) text],
              ss_elementMap = ss_elementMap st @
                [buildMetadata (frameOffsetX eo) (frameOffsetY eo) el (idCounter st) text] \<rparr>),
      snd (forEachElement eo vh sy els
            \<lparr> idCounter = idCounter st + 1,
              ss_distilledHTML = ss_distilledHTML st @ [buildHtml el (idCounter st) text],
              ss_elementMap = ss_elementMap st @
                [buildMetadata (frameOffsetX eo) (frameOffsetY eo) el (idCounter st) text] \<rparr>))"
  using assms extractText_marked[of "maxTextLength (eo_opts eo)" "idCounter st" el]
    buildHtml_marked[of "idCounter st" el "idCounter st" "text"]
    buildMetadata_marked[of "frameOffsetX eo" "frameOffsetY eo" "idCounter st" el "idCounter st" "text"]
  by (simp add: selected_def visitElement_def Let_def marked_def split_beta)

lemma forEachElement_cases:
  obtains (skip) "\<not> selected eo vh sy el"
  | (throw) err where "selected eo vh sy el" "extractText (maxTextLength (eo_opts eo)) el = Inl err"
  | (retain) lbl where "selected eo vh sy el" "extractText (maxTextLength (eo_opts eo)) el = Inr lbl"
  by (cases "extractText (maxTextLength (eo_opts eo)) el") auto

lemma forEachElement_length: "length (fst (forEachElement eo vh sy els st)) = length els"
proof (induction els arbitrary: st)
  case Nil
  then show ?case by simp
next
  case (Cons el els)
  show ?case
    by (cases rule: forEachElement_cases[of eo vh sy el])
       (simp_all add: forEachElement_skip forEachElement_throw forEachElement_retain Cons
          del: forEachElement.simps(2))
qed

lemma forEachElement_nth:
  "i < length els \<Longrightarrow>
   fst (forEachElement eo vh sy els st) ! i = els ! i
   \<or> (selected eo vh sy (els ! i) \<and> (\<exists>n. fst (forEachElement eo vh sy els st) ! i = marked n (els ! i)))"
proof (induction els arbitrary: i st)
  case Nil
  then show ?case by simp
next
  case (Cons el els)
  show ?case
  proof (cases i)
    case 0
    show ?thesis
      by (cases rule: forEachElement_cases[of eo vh sy el])
         (auto simp: 0 forEachElement_skip forEachElement_throw forEachElement_retain
            simp del: forEachElement.simps(2))
  next
    case (Suc j)
    with Cons.prems have j: "j < length els" by simp
    show ?thesis
      using Cons.IH[OF j]
      by (cases rule: forEachElement_cases[of eo vh sy el])
         (simp_all add: Suc forEachElement_skip forEachElement_throw forEachElement_retain
            del: forEachElement.simps(2))
  qed
qed

text \<open>When the loop ends without an error, its variables are these.\<close>

lemma forEachElement_state:
  assumes "snd (forEachElement eo vh sy els st) = Inr st'"
  shows "st' =
     (let zs = zip (filter (selected eo vh sy) els)
                 [idCounter st ..< idCounter st + length (filter (selected eo vh sy) els)]
      in \<lparr> idCounter = idCounter st + length (filter (selected eo vh sy) els),
           ss_distilledHTML = ss_distilledHTML st @
              map (\<lambda>(e, i). buildHtml e i (labelOf (maxTextLength (eo_opts eo)) e)) zs,
           ss_elementMap = ss_elementMap st @
              map (\<lambda>(e, i). buildMetadata (frameOffsetX eo) (frameOffsetY eo) e i
                     (labelOf (maxTextLength (eo_opts eo)) e)) zs \<rparr>)"
  using assms
proof (induction els arbitrary: st)
  case Nil
  then show ?case by simp
next
  case (Cons el els)
  show ?case
  proof (cases rule: forEachElement_cases[of eo vh sy el])
    case skip
    with Cons.prems have "snd (forEachElement eo vh sy els st) = Inr st'"
      by (simp add: forEachElement_skip del: forEachElement.simps(2))
    from Cons.IH[OF this] skip show ?thesis by simp
  next
    case (throw err)
    with Cons.prems show ?thesis
      by (simp add: forEachElement_throw del: forEachElement.simps(2))
  next
    case (retain lbl)
    let ?st1 = "\<lparr> idCounter = idCounter st + 1,
              ss_distilledHTML = ss_distilledHTML st @ [buildHtml el (idCounter st) lbl],
              ss_elementMap = ss_elementMap st @
                [buildMetadata (frameOffsetX eo) (frameOffsetY eo) el (idCounter st) lbl] \<rparr>"
    have upt: "[c..<Suc (c + n)] = c # [Suc c..<Suc (c + n)]" for c n :: nat
      by (simp add: upt_conv_Cons del: upt_Suc)
    from retain Cons.prems have "snd (forEachElement eo vh sy els ?st1) = Inr st'"
      by (simp add: forEachElement_retain del: forEachElement.simps(2))
    from Cons.IH[OF this] retain show ?thesis
      by (simp add: Let_def upt labelOf_def del: upt_Suc)
  qed
qed


lemma evaluateScript_window:
  "snd (evaluateScript eo w) =
     w\<lparr>document := fst (forEachElement eo (innerHeight w) (window_scrollY w) (document w)
        \<lparr> idCounter = startId eo, ss_distilledHTML = [], ss_elementMap = [] \<rparr>)\<rparr>"
  by (simp add: evaluateScript_def split: prod.splits sum.splits)

lemma evaluateScript_fst:
  "fst (evaluateScript eo w) =
     (case snd (forEachElement eo (innerHeight w) (window_scrollY w) (document w)
                  \<lparr> idCounter = startId eo, ss_distilledHTML = [], ss_elementMap = [] \<rparr>) of
        Inl err \<Rightarrow> Inl err
      | Inr st \<Rightarrow>
          Inr \<lparr> fr_distilledHTML = ss_distilledHTML st,
                fr_elementMap = ss_elementMap st,
                fr_totalElements = length (filter matchesInteractive (document w)),
                nextId = idCounter st \<rparr>)"
  by (simp add: evaluateScript_def split: prod.splits sum.splits)

text \<open>The result of a script that returns.\<close>

lemma evaluateScript_result:
  assumes "fst (evaluateScript eo w) = Inr res"
  shows "res =
     (let sel = filter (selected eo (innerHeight w) (window_scrollY w)) (document w);
          zs = zip sel [startId eo ..< startId eo + length sel]
      in \<lparr> fr_distilledHTML = map (\<lambda>(e, i). buildHtml e i (labelOf (maxTextLength (eo_opts eo)) e)) zs,
           fr_elementMap = map (\<lambda>(e, i). buildMetadata (frameOffsetX eo) (frameOffsetY eo) e i
                                   (labelOf (maxTextLength (eo_opts eo)) e)) zs,
           fr_totalElements = length (filter matchesInteractive (document w)),
           nextId = startId eo + length sel \<rparr>)"
proof -
  let ?init = "\<lparr> idCounter = startId eo, ss_distilledHTML = [], ss_elementMap = [] \<rparr>"
  from assms obtain st where
    st: "snd (forEachElement eo (innerHeight w) (window_scrollY w) (document w) ?init) = Inr st"
    and res: "res = \<lparr> fr_distilledHTML = ss_distilledHTML st,
                fr_elementMap = ss_elementMap st,
                fr_totalElements = length (filter matchesInteractive (document w)),
                nextId = idCounter st \<rparr>"
    by (auto simp: evaluateScript_fst split: sum.splits)
  from forEachElement_state[OF st] res show ?thesis
    by (simp add: Let_def)
qed

lemma processFrame_cases:
  "processFrame mainId os (frame, w) st =
     (if isDetached frame then (w, st)
      else case hostOutcome w of
             NeverSettles \<Rightarrow> (w, st\<lparr>stuck := True\<rparr>)
           | RejectsBefore err \<Rightarrow> (w, st\<lparr>consoleWarnings := consoleWarnings st @ [HostError err]\<rparr>)
           | Runs \<Rightarrow>
               (case fst (evaluateScript (frameEvalOpts mainId os (globalIdCounter st) frame) w) of
                  Inl err \<Rightarrow>
                    (snd (evaluateScript (frameEvalOpts mainId os (globalIdCounter st) frame) w),
                     st\<lparr>consoleWarnings := consoleWarnings st @ [err]\<rparr>)
                | Inr frameRes \<Rightarrow>
                    (snd (evaluateScript (frameEvalOpts mainId os (globalIdCounter st) frame) w),
                     st\<lparr>globalIdCounter := nextId frameRes,
                        allResults := allResults st @ [frameRes]\<rparr>)))"
  by (simp add: processFrame_def frameEvalOpts_def split_beta
      split: evaluateOutcome.splits sum.splits prod.splits)

lemma processFrame_window:
  "fst (processFrame mainId os (frame, w) st) = w
   \<or> fst (processFrame mainId os (frame, w) st)
        = snd (evaluateScript (frameEvalOpts mainId os (globalIdCounter st) frame) w)"
  by (simp add: processFrame_cases split: evaluateOutcome.splits sum.splits)

lemma framesLoop_Cons:
  "framesLoop mainId os (fw # fws) st =
     (if stuck (snd (processFrame mainId os fw st))
      then ((fst fw, fst (processFrame mainId os fw st)) # fws, snd (processFrame mainId os fw st))
      else ((fst fw, fst (processFrame mainId os fw st))
              # fst (framesLoop mainId os fws (snd (processFrame mainId os fw st))),
            snd (framesLoop mainId os fws (snd (processFrame mainId os fw st)))))"
  by (simp add: split_beta)

lemma framesLoop_length: "length (fst (framesLoop mainId os fws st)) = length fws"
  by (induction fws arbitrary: st) (simp_all add: framesLoop_Cons del: framesLoop.simps(2))


lemma framesLoop_nth:
  "k < length fws \<Longrightarrow>
   fst (fst (framesLoop mainId os fws st) ! k) = fst (fws ! k)
   \<and> (snd (fst (framesLoop mainId os fws st) ! k) = snd (fws ! k)
      \<or> (\<exists>c. snd (fst (framesLoop mainId os fws st) ! k)
             = snd (evaluateScript (frameEvalOpts mainId os c (fst (fws ! k))) (snd (fws ! k)))))"
proof (induction fws arbitrary: k st)
  case Nil
  then show ?case by simp
next
  case (Cons fw fws)
  obtain frame w where fw: "fw = (frame, w)" by (cases fw)
  show ?case
  proof (cases k)
    case 0
    then show ?thesis
      using processFrame_window[of mainId os frame w st]
      by (auto simp: framesLoop_Cons fw simp del: framesLoop.simps(2))
  next
    case (Suc j)
    with Cons.prems have "j < length fws" by simp
    from Cons.IH[OF this, of "snd (processFrame mainId os fw st)"] Suc show ?thesis
      by (simp add: framesLoop_Cons del: framesLoop.simps(2))
  qed
qed

lemma capture_frames:
  "frames (pageAfter (captureOptimizedSnapshot page options)) =
     fst (framesLoop (mainFrameId page) (applyDefaults options) (frames page) initialPassState)"
  by (simp add: captureOptimizedSnapshot_def split_beta)

lemma capture_returned:
  "returned (captureOptimizedSnapshot page options) =
     (if stuck (snd (framesLoop (mainFrameId page) (applyDefaults options) (frames page) initialPassState))
      then Pending
      else Resolved (mergeResults (allResults (snd (framesLoop (mainFrameId page)
             (applyDefaults options) (frames page) initialPassState)))))"
  by (simp add: captureOptimizedSnapshot_def split_beta)

lemma capture_warnings:
  "warnings (captureOptimizedSnapshot page options) =
     consoleWarnings (snd (framesLoop (mainFrameId page) (applyDefaults options) (frames page)
        initialPassState))"
  by (simp add: captureOptimizedSnapshot_def split_beta)

lemma capture_resolved:
  assumes "returned (captureOptimizedSnapshot page options) = Resolved r"
  shows "r = mergeResults (allResults (snd (framesLoop (mainFrameId page)
             (applyDefaults options) (frames page) initialPassState)))"
    and "\<not> stuck (snd (framesLoop (mainFrameId page) (applyDefaults options) (frames page)
             initialPassState))"
  using assms by (simp_all add: capture_returned split: if_splits)

lemma selected_startId:
  "selected (frameEvalOpts m os c f) vh sy el = selected (frameEvalOpts m os 0 f) vh sy el"
  by (simp add: selected_def isRetained_def frameEvalOpts_def)

text \<open>An element after the pass is what it was, or it was selected and has been marked.\<close>

lemma capture_element:
  assumes k: "k < length (frames page)" and i: "i < length (document (snd (frames page ! k)))"
  shows "document (snd (frames (pageAfter (captureOptimizedSnapshot page options)) ! k)) ! i
           = document (snd (frames page ! k)) ! i
       \<or> (selected (frameEvalOpts (mainFrameId page) (applyDefaults options) 0 (fst (frames page ! k)))
              (innerHeight (snd (frames page ! k))) (window_scrollY (snd (frames page ! k)))
              (document (snd (frames page ! k)) ! i)
          \<and> (\<exists>n. document (snd (frames (pageAfter (captureOptimizedSnapshot page options)) ! k)) ! i
                  = setAttribute ''data-mcp-id'' (String n) (document (snd (frames page ! k)) ! i)))"
proof -
  let ?m = "mainFrameId page" and ?os = "applyDefaults options"
  let ?w = "snd (frames page ! k)" and ?f = "fst (frames page ! k)"
  let ?w' = "snd (fst (framesLoop ?m ?os (frames page) initialPassState) ! k)"
  from framesLoop_nth[OF k, of ?m ?os initialPassState]
  consider "?w' = ?w" | c where "?w' = snd (evaluateScript (frameEvalOpts ?m ?os c ?f) ?w)"
    by blast
  then show ?thesis
  proof cases
    case 1
    then show ?thesis by (simp add: capture_frames)
  next
    case 2
    let ?eo = "frameEvalOpts ?m ?os c ?f"
    from forEachElement_nth[OF i, of ?eo "innerHeight ?w" "window_scrollY ?w"
          "\<lparr> idCounter = startId ?eo, ss_distilledHTML = [], ss_elementMap = [] \<rparr>"]
    have "document ?w' ! i = document ?w ! i
        \<or> (selected ?eo (innerHeight ?w) (window_scrollY ?w) (document ?w ! i)
           \<and> (\<exists>n. document ?w' ! i = marked n (document ?w ! i)))"
      by (simp add: 2 evaluateScript_window)
    then show ?thesis
      using selected_startId[of ?m ?os c ?f]
      by (auto simp: capture_frames marked_def)
  qed
qed

lemma evaluateScript_counts:
  "fst (evaluateScript eo w) = Inr res \<Longrightarrow> length (fr_elementMap res) \<le> fr_totalElements res"
proof -
  assume r: "fst (evaluateScript eo w) = Inr res"
  have "length (filter (selected eo vh sy) xs) \<le> length (filter matchesInteractive xs)" for vh sy xs
    by (induction xs) (auto simp: selected_def)
  then show ?thesis
    using evaluateScript_result[OF r] by (simp add: Let_def)
qed

lemma processFrame_counts:
  assumes "length (concat (map fr_elementMap (allResults st))) \<le> sum_list (map fr_totalElements (allResults st))"
  shows "length (concat (map fr_elementMap (allResults (snd (processFrame m os fw st)))))
     \<le> sum_list (map fr_totalElements (allResults (snd (processFrame m os fw st))))"
proof (cases fw)
  case (Pair frame w)
  show ?thesis
    using assms evaluateScript_counts[of "frameEvalOpts m os (globalIdCounter st) frame" w]
    by (auto simp: Pair processFrame_cases split: evaluateOutcome.splits sum.splits)
qed

lemma framesLoop_counts:
  "length (concat (map fr_elementMap (allResults st))) \<le> sum_list (map fr_totalElements (allResults st)) \<Longrightarrow>
   length (concat (map fr_elementMap (allResults (snd (framesLoop m os fws st)))))
     \<le> sum_list (map fr_totalElements (allResults (snd (framesLoop m os fws st))))"
proof (induction fws arbitrary: st)
  case Nil
  then show ?case by simp
next
  case (Cons fw fws)
  from processFrame_counts[OF Cons.prems, of m os fw] Cons.IH[of "snd (processFrame m os fw st)"]
  show ?case
    by (simp add: framesLoop_Cons del: framesLoop.simps(2))
qed

lemmas example_defs =
  captureOptimizedSnapshot_def applyDefaults_def defaultOptions_def initialPassState_def
  processFrame_def evaluateScript_def visitElement_def isRetained_def matchesInteractive_def
  toLowerCase_def toLowerChar_def upperCaseLetters_def lowerCaseLetters_def
  buildHtml_def buildMetadata_def extractText_def rawText_def trim_def
  slice0_def isSpace_def truthy_def getAttribute_def setAttribute_def mergeResults_def
  rect_top_def rect_bottom_def digitChar_def String.simps Let_def
  twoButtonPage_def nestedPage_def twoFramePage_def failingPage_def failingWindow_def
  hangingPage_def hangingWindow_def throwingPage_def progressBar_def
  mainFrame0_def frameA_def frameB_def windowOf_def
  hiddenButton_def buttonAt_def plainStyle_def

lemma twoFramePage_result:
  "returned (captureOptimizedSnapshot twoFramePage defaultOptions) =
     Resolved \<lparr> distilledHTML = ''<button id=\"1\">OK</button>'' @ [CHR 0x0A] @ ''<button id=\"2\">OK</button>'',
       elementMap =
         [\<lparr> mcpId = 1, md_tagName = ''button'', md_text = ''OK'', md_role = None,
            bounds = \<lparr> bounds_x = 10, bounds_y = 20, bounds_width = 80, bounds_height = 30 \<rparr> \<rparr>,
          \<lparr> mcpId = 2, md_tagName = ''button'', md_text = ''OK'', md_role = None,
            bounds = \<lparr> bounds_x = 15, bounds_y = 25, bounds_width = 80, bounds_height = 30 \<rparr> \<rparr>],
       totalElements = 3, visibleElements = 2 \<rparr>"
  by (simp add: example_defs)

lemma throwingPage_eval:
  "returned (captureOptimizedSnapshot throwingPage defaultOptions) =
     Resolved \<lparr> distilledHTML = ''<button id=\"1\">OK</button>'',
       elementMap =
         [\<lparr> mcpId = 1, md_tagName = ''button'', md_text = ''OK'', md_role = None,
            bounds = \<lparr> bounds_x = 15, bounds_y = 25, bounds_width = 80, bounds_height = 30 \<rparr> \<rparr>],
       totalElements = 1, visibleElements = 1 \<rparr>
   \<and> map (\<lambda>el. getAttribute el ''data-mcp-id'')
        (allElements (pageAfter (captureOptimizedSnapshot throwingPage defaultOptions)))
       = [Some ''1'', Some ''2'', Some ''1'']
   \<and> warnings (captureOptimizedSnapshot throwingPage defaultOptions)
       = [TypeError ''text.replace is not a function'']"
  by (simp add: example_defs allElements_def)

section \<open>The claims about the filter\<close>

text \<open>
  C6. With the override flag unset, an element that passes the size and style checks is
  retained exactly when its absolute vertical range (frame-local top and bottom plus the
  scroll offset plus the vertical offset of the frame) meets the closed range from
  \<open>scrollY - viewportBuffer\<close> to \<open>scrollY + viewportHeight + viewportBuffer\<close>. When that
  range is not empty, an element whose bottom lies exactly on the lower end, or whose top
  lies exactly on the upper end, is retained, and one pixel further out it is excluded.
\<close>

theorem viewport_test_boundary_inclusive:
  fixes eo :: evalOpts and el :: Element and viewportHeight scrollY :: real
  defines "absoluteTop \<equiv> rect_top (boundingClientRect el) + scrollY + frameOffsetY eo"
    and "absoluteBottom \<equiv> rect_bottom (boundingClientRect el) + scrollY + frameOffsetY eo"
    and "viewportTop \<equiv> scrollY - viewportBuffer (eo_opts eo)"
    and "viewportBottom \<equiv> scrollY + viewportHeight + viewportBuffer (eo_opts eo)"
  assumes override: "\<not> includeHidden (eo_opts eo)"
    and size: "\<not> (rect_width (boundingClientRect el) < minWidth (eo_opts eo)
                  \<or> rect_height (boundingClientRect el) < minHeight (eo_opts eo))"
    and style: "display (computedStyle el) \<noteq> ''none''" "visibility (computedStyle el) \<noteq> ''hidden''"
      "opacity (computedStyle el) \<noteq> 0"
    and range: "viewportTop \<le> viewportBottom"
  shows "(isRetained eo viewportHeight scrollY el
            \<longleftrightarrow> viewportTop \<le> absoluteBottom \<and> absoluteTop \<le> viewportBottom)
       \<and> (absoluteBottom = viewportTop \<longrightarrow> isRetained eo viewportHeight scrollY el)
       \<and> (absoluteBottom = viewportTop - 1 \<longrightarrow> \<not> isRetained eo viewportHeight scrollY el)
       \<and> (absoluteTop = viewportBottom \<longrightarrow> isRetained eo viewportHeight scrollY el)
       \<and> (absoluteTop = viewportBottom + 1 \<longrightarrow> \<not> isRetained eo viewportHeight scrollY el)"
proof -
  have iff: "isRetained eo viewportHeight scrollY el
               \<longleftrightarrow> viewportTop \<le> absoluteBottom \<and> absoluteTop \<le> viewportBottom"
    using override size style
    by (auto simp: isRetained_def Let_def absoluteTop_def absoluteBottom_def viewportTop_def
        viewportBottom_def)
  have order: "absoluteTop \<le> absoluteBottom"
    using rect_top_le_bottom [of "boundingClientRect el"]
    by (simp add: absoluteTop_def absoluteBottom_def)
  show ?thesis
    using iff order range by auto
qed

theorem viewport_test_boundary_inclusive_witness:
  "isRetained defaultEvalOpts 600 200 (buttonAt 0 (-1010) 80 10)
   \<and> \<not> isRetained defaultEvalOpts 600 200 (buttonAt 0 (-1011) 80 10)
   \<and> isRetained defaultEvalOpts 600 200 (buttonAt 0 1600 80 10)
   \<and> \<not> isRetained defaultEvalOpts 600 200 (buttonAt 0 1601 80 10)"
  using viewport_test_boundary_inclusive [where eo = defaultEvalOpts and el = "buttonAt 0 (-1010) 80 10"
      and scrollY = 200 and viewportHeight = 600]
    viewport_test_boundary_inclusive [where eo = defaultEvalOpts and el = "buttonAt 0 (-1011) 80 10"
      and scrollY = 200 and viewportHeight = 600]
    viewport_test_boundary_inclusive [where eo = defaultEvalOpts and el = "buttonAt 0 1600 80 10"
      and scrollY = 200 and viewportHeight = 600]
    viewport_test_boundary_inclusive [where eo = defaultEvalOpts and el = "buttonAt 0 1601 80 10"
      and scrollY = 200 and viewportHeight = 600]
  by (simp add: defaultEvalOpts_def applyDefaults_def defaultOptions_def buttonAt_def
      plainStyle_def rect_top_def rect_bottom_def)

text \<open>
  C7. An element whose width or height is below the configured minimum is rejected by the
  first check of the callback, whatever the other options are (the include-hidden
  override too): the callback leaves the element and every variable of the script as they
  are, so no identifier is used up and no marker is written, and after the pass the
  element is what it was before.
\<close>

theorem undersized_never_identified:
  fixes page :: Page and options :: SnapshotOptions and k i :: nat
  defines "el \<equiv> document (snd (frames page ! k)) ! i"
  assumes k: "k < length (frames page)"
    and i: "i < length (document (snd (frames page ! k)))"
    and small: "rect_width (boundingClientRect el) < minWidth (applyDefaults options)
              \<or> rect_height (boundingClientRect el) < minHeight (applyDefaults options)"
  shows "document (snd (frames (pageAfter (captureOptimizedSnapshot page options)) ! k)) ! i = el
       \<and> (\<forall>eo vh sy st. eo_opts eo = applyDefaults options \<longrightarrow>
             \<not> isRetained eo vh sy el \<and> visitElement eo vh sy el st = (el, Inr st))"
proof -
  have rej: "\<not> isRetained eo vh sy el" if "eo_opts eo = applyDefaults options" for eo vh sy
    using small that by (auto simp: isRetained_def Let_def)
  then have "\<not> selected (frameEvalOpts (mainFrameId page) (applyDefaults options) 0 (fst (frames page ! k)))
      (innerHeight (snd (frames page ! k))) (window_scrollY (snd (frames page ! k))) el"
    by (simp add: selected_def frameEvalOpts_def)
  with capture_element[OF k i, of options] have "document (snd (frames (pageAfter (captureOptimizedSnapshot page options)) ! k)) ! i = el"
    by (auto simp: el_def)
  with rej show ?thesis
    by (simp add: visitElement_def)
qed

theorem undersized_never_identified_witness:
  "document (snd (frames (pageAfter (captureOptimizedSnapshot twoButtonPage
      \<lparr> opt_viewportBuffer = None, opt_maxTextLength = None, opt_includeHidden = Some True,
        opt_minElementSize = None \<rparr>)) ! 0)) ! 0 = hiddenButton
   \<and> rect_width (boundingClientRect hiddenButton) < 1"
  using undersized_never_identified [where page = twoButtonPage and k = 0 and i = 0
      and options = "\<lparr> opt_viewportBuffer = None, opt_maxTextLength = None,
        opt_includeHidden = Some True, opt_minElementSize = None \<rparr>"]
  by (simp add: twoButtonPage_def windowOf_def applyDefaults_def hiddenButton_def)

text \<open>
  C8. In every result the retained count is the length of the descriptor list and is at
  most the discovered count, and the pass changes an element (by writing its identifier)
  only if the element is selected and retained. With the default options, the pass over
  a page with one button that is not displayed and one ordinary button discovers two
  elements and retains one, the ordinary button, which alone receives an identifier.
\<close>

theorem retained_at_most_discovered:
  assumes r: "returned (captureOptimizedSnapshot page options) = Resolved r"
  shows "visibleElements r \<le> totalElements r
       \<and> visibleElements r = length (elementMap r)
       \<and> (\<forall>k i. k < length (frames page) \<and> i < length (document (snd (frames page ! k)))
              \<and> document (snd (frames (pageAfter (captureOptimizedSnapshot page options)) ! k)) ! i
                   \<noteq> document (snd (frames page ! k)) ! i
            \<longrightarrow> selected (frameEvalOpts (mainFrameId page) (applyDefaults options) 0 (fst (frames page ! k)))
                  (innerHeight (snd (frames page ! k))) (window_scrollY (snd (frames page ! k)))
                  (document (snd (frames page ! k)) ! i))
       \<and> returned (captureOptimizedSnapshot twoButtonPage defaultOptions) =
           Resolved \<lparr> distilledHTML = ''<button id=\"1\">OK</button>'',
             elementMap =
               [\<lparr> mcpId = 1, md_tagName = ''button'', md_text = ''OK'', md_role = None,
                  bounds = \<lparr> bounds_x = 10, bounds_y = 20, bounds_width = 80, bounds_height = 30 \<rparr> \<rparr>],
             totalElements = 2, visibleElements = 1 \<rparr>
       \<and> map (\<lambda>el. getAttribute el ''data-mcp-id'')
            (allElements (pageAfter (captureOptimizedSnapshot twoButtonPage defaultOptions)))
           = [None, Some ''1'']"
proof -
  let ?st = "snd (framesLoop (mainFrameId page) (applyDefaults options) (frames page) initialPassState)"
  from r have r': "r = mergeResults (allResults ?st)"
    by (rule capture_resolved)
  have counts: "visibleElements r \<le> totalElements r \<and> visibleElements r = length (elementMap r)"
    using framesLoop_counts[of initialPassState "mainFrameId page" "applyDefaults options" "frames page"]
    by (simp add: r' mergeResults_def initialPassState_def Let_def)
  have only: "\<forall>k i. k < length (frames page) \<and> i < length (document (snd (frames page ! k)))
              \<and> document (snd (frames (pageAfter (captureOptimizedSnapshot page options)) ! k)) ! i
                   \<noteq> document (snd (frames page ! k)) ! i
            \<longrightarrow> selected (frameEvalOpts (mainFrameId page) (applyDefaults options) 0 (fst (frames page ! k)))
                  (innerHeight (snd (frames page ! k))) (window_scrollY (snd (frames page ! k)))
                  (document (snd (frames page ! k)) ! i)"
    using capture_element[of _ page _ options] by blast
  have ex1: "returned (captureOptimizedSnapshot twoButtonPage defaultOptions) =
           Resolved \<lparr> distilledHTML = ''<button id=\"1\">OK</button>'',
             elementMap =
               [\<lparr> mcpId = 1, md_tagName = ''button'', md_text = ''OK'', md_role = None,
                  bounds = \<lparr> bounds_x = 10, bounds_y = 20, bounds_width = 80, bounds_height = 30 \<rparr> \<rparr>],
             totalElements = 2, visibleElements = 1 \<rparr>"
    by (simp add: example_defs)
  have ex2: "map (\<lambda>el. getAttribute el ''data-mcp-id'')
            (allElements (pageAfter (captureOptimizedSnapshot twoButtonPage defaultOptions)))
           = [None, Some ''1'']"
    by (simp add: example_defs allElements_def)
  from counts only ex1 ex2 show ?thesis by blast
qed

theorem retained_at_most_discovered_witness:
  "visibleElements \<lparr> distilledHTML = ''<button id=\"1\">OK</button>'' @ [CHR 0x0A] @ ''<button id=\"2\">OK</button>'',
       elementMap =
         [\<lparr> mcpId = 1, md_tagName = ''button'', md_text = ''OK'', md_role = None,
            bounds = \<lparr> bounds_x = 10, bounds_y = 20, bounds_width = 80, bounds_height = 30 \<rparr> \<rparr>,
          \<lparr> mcpId = 2, md_tagName = ''button'', md_text = ''OK'', md_role = None,
            bounds = \<lparr> bounds_x = 15, bounds_y = 25, bounds_width = 80, bounds_height = 30 \<rparr> \<rparr>],
       totalElements = 3, visibleElements = 2 \<rparr> \<le> (3::nat)
   \<and> returned (captureOptimizedSnapshot twoFramePage defaultOptions) =
     Resolved \<lparr> distilledHTML = ''<button id=\"1\">OK</button>'' @ [CHR 0x0A] @ ''<button id=\"2\">OK</button>'',
       elementMap =
         [\<lparr> mcpId = 1, md_tagName = ''button'', md_text = ''OK'', md_role = None,
            bounds = \<lparr> bounds_x = 10, bounds_y = 20, bounds_width = 80, bounds_height = 30 \<rparr> \<rparr>,
          \<lparr> mcpId = 2, md_tagName = ''button'', md_text = ''OK'', md_role = None,
            bounds = \<lparr> bounds_x = 15, bounds_y = 25, bounds_width = 80, bounds_height = 30 \<rparr> \<rparr>],
       totalElements = 3, visibleElements = 2 \<rparr>"
  using retained_at_most_discovered [OF twoFramePage_result] twoFramePage_result
  by simp

text \<open>
  C10. An element that a filter step rejects is left exactly as it was by the pass, and
  the descriptors and the fragments that the script returns for a frame are built, in
  document order, from the selected and retained elements only, one of each for every
  such element. An element that the pass changes differs from what it was only in the
  value of its \<^verbatim>\<open>data-mcp-id\<close> attribute.
\<close>

theorem rejected_elements_unmodified:
  fixes page :: Page and options :: SnapshotOptions and k i :: nat
  defines "el \<equiv> document (snd (frames page ! k)) ! i"
    and "el' \<equiv> document (snd (frames (pageAfter (captureOptimizedSnapshot page options)) ! k)) ! i"
    and "w \<equiv> snd (frames page ! k)"
    and "eo \<equiv> frameEvalOpts (mainFrameId page) (applyDefaults options) 0 (fst (frames page ! k))"
  assumes k: "k < length (frames page)"
    and i: "i < length (document (snd (frames page ! k)))"
  shows "(\<not> isRetained eo (innerHeight w) (window_scrollY w) el \<longrightarrow> el' = el)
       \<and> (el' = el \<or> (\<exists>n. el' = el\<lparr>attributes := AList.update ''data-mcp-id'' (String n) (attributes el)\<rparr>))
       \<and> (\<forall>name. name \<noteq> ''data-mcp-id'' \<longrightarrow> getAttribute el' name = getAttribute el name)
       \<and> (\<forall>eo' w' res. fst (evaluateScript eo' w') = Inr res \<longrightarrow>
            (let sel = filter (selected eo' (innerHeight w') (window_scrollY w')) (document w');
                 zs = zip sel [startId eo' ..< startId eo' + length sel]
             in fr_elementMap res
                  = map (\<lambda>(e, n). buildMetadata (frameOffsetX eo') (frameOffsetY eo') e n
                                   (labelOf (maxTextLength (eo_opts eo')) e)) zs
              \<and> fr_distilledHTML res
                  = map (\<lambda>(e, n). buildHtml e n (labelOf (maxTextLength (eo_opts eo')) e)) zs))"
proof -
  from capture_element[OF k i, of options]
  have cases: "el' = el \<or> (selected eo (innerHeight w) (window_scrollY w) el
      \<and> (\<exists>n. el' = setAttribute ''data-mcp-id'' (String n) el))"
    by (simp add: el_def el'_def w_def eo_def)
  then have a: "\<not> isRetained eo (innerHeight w) (window_scrollY w) el \<longrightarrow> el' = el"
    by (auto simp: selected_def)
  from cases have b: "el' = el \<or> (\<exists>n. el' = el\<lparr>attributes := AList.update ''data-mcp-id'' (String n) (attributes el)\<rparr>)"
    by (auto simp: setAttribute_def)
  from cases have c: "\<forall>name. name \<noteq> ''data-mcp-id'' \<longrightarrow> getAttribute el' name = getAttribute el name"
    by (auto simp: getAttribute_setAttribute)
  have d: "\<forall>eo' w' res. fst (evaluateScript eo' w') = Inr res \<longrightarrow>
            (let sel = filter (selected eo' (innerHeight w') (window_scrollY w')) (document w');
                 zs = zip sel [startId eo' ..< startId eo' + length sel]
             in fr_elementMap res
                  = map (\<lambda>(e, n). buildMetadata (frameOffsetX eo') (frameOffsetY eo') e n
                                   (labelOf (maxTextLength (eo_opts eo')) e)) zs
              \<and> fr_distilledHTML res
                  = map (\<lambda>(e, n). buildHtml e n (labelOf (maxTextLength (eo_opts eo')) e)) zs)"
  proof (intro allI impI)
    fix eo' w' res
    assume "fst (evaluateScript eo' w') = Inr res"
    from evaluateScript_result[OF this]
    show "let sel = filter (selected eo' (innerHeight w') (window_scrollY w')) (document w');
                 zs = zip sel [startId eo' ..< startId eo' + length sel]
             in fr_elementMap res
                  = map (\<lambda>(e, n). buildMetadata (frameOffsetX eo') (frameOffsetY eo') e n
                                   (labelOf (maxTextLength (eo_opts eo')) e)) zs
              \<and> fr_distilledHTML res
                  = map (\<lambda>(e, n). buildHtml e n (labelOf (maxTextLength (eo_opts eo')) e)) zs"
      by (simp add: Let_def)
  qed
  from a b c d show ?thesis by blast
qed

theorem rejected_elements_unmodified_witness:
  "document (snd (frames (pageAfter (captureOptimizedSnapshot twoButtonPage defaultOptions)) ! 0)) ! 0
     = hiddenButton
   \<and> document (snd (frames (pageAfter (captureOptimizedSnapshot twoButtonPage defaultOptions)) ! 0)) ! 1
     = (buttonAt 10 20 80 30)\<lparr>attributes := [(''data-mcp-id'', ''1'')]\<rparr>
   \<and> \<not> isRetained (frameEvalOpts 0 (applyDefaults defaultOptions) 0 mainFrame0) 600 0 hiddenButton"
  using rejected_elements_unmodified [where page = twoButtonPage and k = 0 and i = 0
      and options = defaultOptions]
    rejected_elements_unmodified [where page = twoButtonPage and k = 0 and i = 1
      and options = defaultOptions]
  by (simp add: example_defs frameEvalOpts_def)

section \<open>The claims about the action tools\<close>

text \<open>
  C3, as the code has it. A call that supplies both an identifier and a reference is not
  rejected: the tool looks the identifier up and clicks.
\<close>

theorem both_schemes_accepted_counterexample:
  "click idleTab \<lparr> p_element = ''Submit'', p_ref = Some ''e5'', p_mcpId = Some (IntNum 1),
                    p_doubleClick = None, p_button = None \<rparr>
     = (Resolved (),
        [SetIncludeSnapshot, CallGetElementByMcpId (IntNum 1),
         AddCode (''await page.locator('' @ [CHR 0x27] @ ''[data-mcp-id=\"1\"]'' @ [CHR 0x27] @ '').click();''),
         Interact (DoClick (PageLocator ''[data-mcp-id=\"1\"]'') None)])"
  by (simp add: click_def idleTab_def getElementByMcpId_def mcpIdSelector_def mcpIdCode_def
      buttonAttr_def String.simps digitChar_def Let_def)

text \<open>
  C3, amended. A call of click, hover or select with neither an identifier nor a
  non-empty reference is rejected with the error \<^verbatim>\<open>Either ref or mcpId must be provided\<close>,
  and a call of drag with neither both identifiers nor both non-empty references with
  \<^verbatim>\<open>Either both refs or both mcpIds must be provided\<close>; in both cases nothing has been
  done but to ask for a snapshot in the response: no locator is looked up and the page is
  not touched. A call that supplies both schemes is treated as the same call without the
  reference: the identifier is used.
\<close>

theorem addressing_checked:
  "(p_mcpId cp = None \<and> \<not> truthy (p_ref cp) \<longrightarrow>
      click tab cp = (Rejected ''Either ref or mcpId must be provided'', [SetIncludeSnapshot]))
   \<and> (p_mcpId hp = None \<and> \<not> truthy (p_ref hp) \<longrightarrow>
      hover tab hp = (Rejected ''Either ref or mcpId must be provided'', [SetIncludeSnapshot]))
   \<and> (p_mcpId sp = None \<and> \<not> truthy (p_ref sp) \<longrightarrow>
      selectOption tab sp = (Rejected ''Either ref or mcpId must be provided'', [SetIncludeSnapshot]))
   \<and> ((p_startMcpId dp = None \<or> p_endMcpId dp = None)
        \<and> \<not> (truthy (p_startRef dp) \<and> truthy (p_endRef dp)) \<longrightarrow>
      drag tab dp = (Rejected ''Either both refs or both mcpIds must be provided'', [SetIncludeSnapshot]))
   \<and> (p_mcpId cp \<noteq> None \<longrightarrow> click tab cp = click tab (cp\<lparr>p_ref := None\<rparr>))
   \<and> (p_mcpId hp \<noteq> None \<longrightarrow> hover tab hp = hover tab (hp\<lparr>p_ref := None\<rparr>))
   \<and> (p_mcpId sp \<noteq> None \<longrightarrow> selectOption tab sp = selectOption tab (sp\<lparr>p_ref := None\<rparr>))
   \<and> (p_startMcpId dp \<noteq> None \<and> p_endMcpId dp \<noteq> None \<longrightarrow>
        drag tab dp = drag tab (dp\<lparr>p_startRef := None, p_endRef := None\<rparr>))"
proof -
  have c1: "p_mcpId cp = None \<and> \<not> truthy (p_ref cp) \<longrightarrow>
      click tab cp = (Rejected ''Either ref or mcpId must be provided'', [SetIncludeSnapshot])"
    by (simp add: click_def Let_def)
  have h1: "p_mcpId hp = None \<and> \<not> truthy (p_ref hp) \<longrightarrow>
      hover tab hp = (Rejected ''Either ref or mcpId must be provided'', [SetIncludeSnapshot])"
    by (simp add: hover_def Let_def)
  have s1: "p_mcpId sp = None \<and> \<not> truthy (p_ref sp) \<longrightarrow>
      selectOption tab sp = (Rejected ''Either ref or mcpId must be provided'', [SetIncludeSnapshot])"
    by (simp add: selectOption_def Let_def)
  have d1: "(p_startMcpId dp = None \<or> p_endMcpId dp = None)
        \<and> \<not> (truthy (p_startRef dp) \<and> truthy (p_endRef dp)) \<longrightarrow>
      drag tab dp = (Rejected ''Either both refs or both mcpIds must be provided'', [SetIncludeSnapshot])"
    by (auto simp: drag_def Let_def split: option.splits)
  have c2: "p_mcpId cp \<noteq> None \<longrightarrow> click tab cp = click tab (cp\<lparr>p_ref := None\<rparr>)"
    by (auto simp: click_def getElementByMcpId_def Let_def)
  have h2: "p_mcpId hp \<noteq> None \<longrightarrow> hover tab hp = hover tab (hp\<lparr>p_ref := None\<rparr>)"
    by (auto simp: hover_def getElementByMcpId_def Let_def)
  have s2: "p_mcpId sp \<noteq> None \<longrightarrow> selectOption tab sp = selectOption tab (sp\<lparr>p_ref := None\<rparr>)"
    by (auto simp: selectOption_def getElementByMcpId_def Let_def)
  have d2: "p_startMcpId dp \<noteq> None \<and> p_endMcpId dp \<noteq> None \<longrightarrow>
        drag tab dp = drag tab (dp\<lparr>p_startRef := None, p_endRef := None\<rparr>)"
    by (auto simp: drag_def getElementByMcpId_def Let_def)
  from c1 h1 s1 d1 c2 h2 s2 d2 show ?thesis by blast
qed

theorem addressing_checked_witness:
  "click idleTab \<lparr> p_element = ''Submit'', p_ref = None, p_mcpId = None,
                    p_doubleClick = None, p_button = None \<rparr>
     = (Rejected ''Either ref or mcpId must be provided'', [SetIncludeSnapshot])
   \<and> drag idleTab \<lparr> p_startElement = ''Card'', p_startRef = Some ''e1'', p_startMcpId = None,
                    p_endElement = ''Bin'', p_endRef = None, p_endMcpId = Some (IntNum 4) \<rparr>
     = (Rejected ''Either both refs or both mcpIds must be provided'', [SetIncludeSnapshot])
   \<and> hover idleTab \<lparr> p_element = ''Menu'', p_ref = Some ''e5'', p_mcpId = Some (IntNum 3) \<rparr>
     = hover idleTab \<lparr> p_element = ''Menu'', p_ref = None, p_mcpId = Some (IntNum 3) \<rparr>"
  using addressing_checked [where tab = idleTab
      and cp = "\<lparr> p_element = ''Submit'', p_ref = None, p_mcpId = None,
                    p_doubleClick = None, p_button = None \<rparr>"
      and dp = "\<lparr> p_startElement = ''Card'', p_startRef = Some ''e1'', p_startMcpId = None,
                    p_endElement = ''Bin'', p_endRef = None, p_endMcpId = Some (IntNum 4) \<rparr>"
      and hp = "\<lparr> p_element = ''Menu'', p_ref = Some ''e5'', p_mcpId = Some (IntNum 3) \<rparr>"]
  by (simp add: truthy_def)

section \<open>The claims about nesting depth\<close>

lemma processFrame_stuck:
  "stuck (snd (processFrame m os (f, w) st)) =
     (stuck st \<or> (\<not> isDetached f \<and> hostOutcome w = NeverSettles))"
  by (simp add: processFrame_cases split: evaluateOutcome.splits sum.splits)

lemma framesLoop_append:
  "\<not> stuck st \<Longrightarrow>
   framesLoop m os (xs @ ys) st =
     (if stuck (snd (framesLoop m os xs st))
      then (fst (framesLoop m os xs st) @ ys, snd (framesLoop m os xs st))
      else (fst (framesLoop m os xs st) @ fst (framesLoop m os ys (snd (framesLoop m os xs st))),
            snd (framesLoop m os ys (snd (framesLoop m os xs st)))))"
proof (induction xs arbitrary: st)
  case Nil
  then show ?case by simp
next
  case (Cons fw xs)
  show ?case
  proof (cases "stuck (snd (processFrame m os fw st))")
    case True
    then show ?thesis
      by (simp add: framesLoop_Cons del: framesLoop.simps(2))
  next
    case False
    from Cons.IH[OF False] False show ?thesis
      by (simp add: framesLoop_Cons del: framesLoop.simps(2))
  qed
qed

lemma offsetLoop_nested: "offsetLoop 0 (nestedFrame n) (x, y) = (x + real n, y + real n)"
  by (induction n arbitrary: x y) (simp_all add: mainFrame0_def)

lemma nested_attached: "\<not> isDetached (nestedFrame n)"
  by (cases n) (simp_all add: mainFrame0_def)

lemma processFrame_nested_empty:
  "processFrame 0 os (nestedFrame n, windowOf []) st =
     (windowOf [], st\<lparr>allResults := allResults st @
        [\<lparr> fr_distilledHTML = [], fr_elementMap = [], fr_totalElements = 0, nextId = globalIdCounter st \<rparr>]\<rparr>)"
  by (simp add: processFrame_def nested_attached offsetLoop_nested windowOf_def evaluateScript_def)

lemma collect_too_deep:
  "MAX_DEPTH < depth \<Longrightarrow>
   collectAllElements g doc chain depth st
     = ([], warn ''iframe nesting too deep (>10), stopping recursion'' st)"
  by (simp add: collectAllElements.simps)

lemma chainsBounded_warn: "chainsBounded (warn msg st) = chainsBounded st"
  by (simp add: chainsBounded_def warn_def)

lemma list_all_update:
  "list_all P al \<Longrightarrow> P (k, v) \<Longrightarrow> list_all P (AList.update k v al)"
  by (induction al) auto

lemma chainsBounded_attach:
  "length chain \<le> MAX_DEPTH \<Longrightarrow> chainsBounded st \<Longrightarrow> chainsBounded (attachChain chain els st)"
proof -
  assume len: "length chain \<le> MAX_DEPTH" and st: "chainsBounded st"
  have "list_all (\<lambda>entry. length (snd entry) \<le> MAX_DEPTH)
          (fold (\<lambda>el store. AList.update el chain store) els store)"
    if "list_all (\<lambda>entry. length (snd entry) \<le> MAX_DEPTH) store" for store
    using that len by (induction els arbitrary: store) (simp_all add: list_all_update)
  with st show ?thesis
    by (simp add: chainsBounded_def attachChain_def)
qed

lemma collect_chainsBounded:
  "length chain \<le> depth \<Longrightarrow> chainsBounded st \<Longrightarrow>
   chainsBounded (snd (collectAllElements g doc chain depth st))"
proof (induction "Suc MAX_DEPTH - depth" arbitrary: doc chain depth st)
  case 0
  then have "MAX_DEPTH < depth" by simp
  with 0 show ?case
    by (simp add: collect_too_deep chainsBounded_warn)
next
  case (Suc n)
  then have depth: "\<not> MAX_DEPTH < depth" by simp
  define step where "step = (\<lambda>iframe (acc :: nat list, s).
      (case iframe_content iframe of
         AccessThrows \<Rightarrow>
           (acc, warn (''Cannot access iframe (cross-origin): '' @
              (if iframe_src iframe \<noteq> [] then iframe_src iframe else ''(no src)'')) s)
       | NoContentDocument \<Rightarrow> (acc, s)
       | ContentDocument iframeDoc \<Rightarrow>
           (case collectAllElements g iframeDoc (chain @ [iframe]) (depth + 1) s of
              (iframeElements, s') \<Rightarrow> (acc @ iframeElements, s'))))"
  have step_ok: "chainsBounded (snd (step iframe a))" if "chainsBounded (snd a)" for iframe a
  proof (cases a)
    case (Pair acc s)
    show ?thesis
    proof (cases "iframe_content iframe")
      case (ContentDocument d)
      have "chainsBounded (snd (collectAllElements g d (chain @ [iframe]) (depth + 1) s))"
        using Suc.hyps(1)[of "depth + 1" "chain @ [iframe]" s d] Suc.hyps(2) Suc.prems(1) that Pair
        by simp
      then show ?thesis
        by (simp add: step_def Pair ContentDocument split_beta)
    qed (use that Pair in \<open>simp_all add: step_def chainsBounded_warn\<close>)
  qed
  have fold_ok: "chainsBounded (snd (fold step iframes a))" if "chainsBounded (snd a)" for iframes a
    using that by (induction iframes arbitrary: a) (simp_all add: step_ok)
  define first where "first = (case ld_elements (g doc) of
                 None \<Rightarrow> ([], warn ''Error querying elements:'' st)
               | Some els \<Rightarrow> (els, attachChain chain els st))"
  have first_ok: "chainsBounded (snd first)"
    using Suc.prems depth
    by (auto simp: first_def chainsBounded_warn chainsBounded_attach split: option.splits)
  have "collectAllElements g doc chain depth st =
      (case ld_iframes (g doc) of
         None \<Rightarrow> (fst first, warn ''Error iterating iframes:'' (snd first))
       | Some iframes \<Rightarrow> fold step iframes first)"
    using depth
    by (subst collectAllElements.simps) (simp add: first_def step_def split_beta split: option.splits)
  then show ?case
    using first_ok fold_ok[of first]
    by (simp add: chainsBounded_warn split: option.splits)
qed

lemma ancestorLinks_nestedFrame: "length (ancestorLinks 0 (nestedFrame n)) = n"
  by (induction n) (simp_all add: mainFrame0_def)

text \<open>
  C9, as the code has it. The pass over all frames has no bound on the nesting depth: a
  frame nested eleven deep, deeper than \<open>MAX_DEPTH\<close>, is processed like every other
  frame, and no warning is printed.
\<close>

theorem deep_frames_not_truncated_counterexample:
  "MAX_DEPTH < 11
   \<and> returned (captureOptimizedSnapshot deepPage defaultOptions) =
     Resolved \<lparr> distilledHTML = ''<button id=\"1\">OK</button>'',
       elementMap =
         [\<lparr> mcpId = 1, md_tagName = ''button'', md_text = ''OK'', md_role = None,
            bounds = \<lparr> bounds_x = 16, bounds_y = 16, bounds_width = 80, bounds_height = 30 \<rparr> \<rparr>],
       totalElements = 1, visibleElements = 1 \<rparr>
   \<and> warnings (captureOptimizedSnapshot deepPage defaultOptions) = []"
proof -
  have fr: "frames deepPage = map (\<lambda>n. (nestedFrame n, windowOf [])) [0 ..< 11]
      @ [(nestedFrame 11, windowOf [buttonAt 5 5 80 30])]"
    by (simp add: deepPage_def)
  have loop: "framesLoop 0 os (map (\<lambda>n. (nestedFrame n, windowOf [])) ns) st =
      (map (\<lambda>n. (nestedFrame n, windowOf [])) ns,
       st\<lparr>allResults := allResults st @ map (\<lambda>n. \<lparr> fr_distilledHTML = [], fr_elementMap = [],
            fr_totalElements = 0, nextId = globalIdCounter st \<rparr>) ns\<rparr>)"
    if "\<not> stuck st" for os ns st
    using that
    by (induction ns arbitrary: st)
       (simp_all add: processFrame_nested_empty framesLoop_Cons del: framesLoop.simps(2))
  have html: "buildHtml (marked 1 (buttonAt 5 5 80 30)) 1 ''OK'' = ''<button id=\"1\">OK</button>''"
    by (simp add: buildHtml_marked)
       (simp add: buildHtml_def buttonAt_def toLowerCase_def toLowerChar_def upperCaseLetters_def
          lowerCaseLetters_def getAttribute_def truthy_def String.simps digitChar_def Let_def)
  have meta: "buildMetadata 11 11 (marked 1 (buttonAt 5 5 80 30)) 1 ''OK'' =
      \<lparr> mcpId = 1, md_tagName = ''button'', md_text = ''OK'', md_role = None,
        bounds = \<lparr> bounds_x = 16, bounds_y = 16, bounds_width = 80, bounds_height = 30 \<rparr> \<rparr>"
    by (simp add: buildMetadata_marked)
       (simp add: buildMetadata_def buttonAt_def toLowerCase_def toLowerChar_def
          upperCaseLetters_def lowerCaseLetters_def getAttribute_def truthy_def Let_def)
  have label: "extractText 100 (marked 1 (buttonAt 5 5 80 30)) = Inr ''OK''"
    by (simp add: extractText_marked)
       (simp add: extractText_def rawText_def buttonAt_def trim_def slice0_def isSpace_def
          getAttribute_def Let_def)
  have last: "processFrame 0 (applyDefaults defaultOptions)
        (nestedFrame 11, windowOf [buttonAt 5 5 80 30]) st
     = (windowOf [marked 1 (buttonAt 5 5 80 30)],
        st\<lparr>globalIdCounter := 2,
           allResults := allResults st @
            [\<lparr> fr_distilledHTML = [''<button id=\"1\">OK</button>''],
               fr_elementMap = [\<lparr> mcpId = 1, md_tagName = ''button'', md_text = ''OK'',
                 md_role = None,
                 bounds = \<lparr> bounds_x = 16, bounds_y = 16, bounds_width = 80, bounds_height = 30 \<rparr> \<rparr>],
               fr_totalElements = 1, nextId = 2 \<rparr>]\<rparr>)" if "globalIdCounter st = 1" for st
  proof -
    have ret: "isRetained \<lparr> eo_opts = applyDefaults defaultOptions, startId = 1,
          frameOffsetX = 11, frameOffsetY = 11 \<rparr> 600 0 (buttonAt 5 5 80 30)"
      by (simp add: isRetained_def applyDefaults_def defaultOptions_def buttonAt_def plainStyle_def
          rect_top_def rect_bottom_def)
    have sel: "matchesInteractive (buttonAt 5 5 80 30)"
      by (simp add: matchesInteractive_def buttonAt_def toLowerCase_def toLowerChar_def
          upperCaseLetters_def lowerCaseLetters_def getAttribute_def Let_def)
    have visit: "visitElement \<lparr> eo_opts = applyDefaults defaultOptions, startId = 1,
          frameOffsetX = 11, frameOffsetY = 11 \<rparr> 600 0 (buttonAt 5 5 80 30)
          \<lparr> idCounter = 1, ss_distilledHTML = [], ss_elementMap = [] \<rparr>
        = (marked 1 (buttonAt 5 5 80 30),
           Inr \<lparr> idCounter = 2, ss_distilledHTML = [''<button id=\"1\">OK</button>''],
                 ss_elementMap = [\<lparr> mcpId = 1, md_tagName = ''button'', md_text = ''OK'',
                   md_role = None,
                   bounds = \<lparr> bounds_x = 16, bounds_y = 16, bounds_width = 80,
                     bounds_height = 30 \<rparr> \<rparr>] \<rparr>)"
      unfolding visitElement_def
      using ret label html meta
      by (simp add: marked_def [symmetric] applyDefaults_def defaultOptions_def
          del: One_nat_def)
    show ?thesis
      using that
      by (simp add: processFrame_def nested_attached offsetLoop_nested windowOf_def
          evaluateScript_def sel visit del: One_nat_def)
  qed
  have nil: "concat (map (\<lambda>n. []) ns) = []" for ns :: "nat list"
    by (induction ns) simp_all
  have st: "snd (framesLoop 0 (applyDefaults defaultOptions) (frames deepPage) initialPassState)
      = \<lparr> globalIdCounter = 2,
          allResults = map (\<lambda>n. \<lparr> fr_distilledHTML = [], fr_elementMap = [],
                fr_totalElements = 0, nextId = 1 \<rparr>) [0 ..< 11]
            @ [\<lparr> fr_distilledHTML = [''<button id=\"1\">OK</button>''],
                 fr_elementMap = [\<lparr> mcpId = 1, md_tagName = ''button'', md_text = ''OK'',
                   md_role = None,
                   bounds = \<lparr> bounds_x = 16, bounds_y = 16, bounds_width = 80,
                     bounds_height = 30 \<rparr> \<rparr>],
                 fr_totalElements = 1, nextId = 2 \<rparr>],
          consoleWarnings = [], stuck = False \<rparr>"
    by (simp add: fr framesLoop_append loop last framesLoop_Cons initialPassState_def
        del: framesLoop.simps(2) upt_Suc One_nat_def)
  have mid: "mainFrameId deepPage = 0"
    by (simp add: deepPage_def)
  show ?thesis
    by (simp add: captureOptimizedSnapshot_def split_beta mid st mergeResults_def nil
        MAX_DEPTH_def Let_def comp_def del: upt_Suc One_nat_def)
qed

text \<open>
  C9, amended. The bound is that of the legacy traversal: a call of \<open>collectAllElements\<close>
  at a depth above \<open>MAX_DEPTH = 10\<close> collects nothing, prints a warning and returns; so no
  chain longer than ten iframes is ever attached to an element, and the traversal ends on
  every document graph. On the cyclic graph it returns the elements of the eleven levels
  it visits, and one warning. The pass over all frames walks the whole ancestor chain of a
  frame, whatever its length.
\<close>

theorem legacy_descent_bounded:
  "MAX_DEPTH = 10
   \<and> (MAX_DEPTH < depth \<longrightarrow>
        collectAllElements g doc chain depth st
          = ([], warn ''iframe nesting too deep (>10), stopping recursion'' st))
   \<and> (length chain \<le> depth \<and> chainsBounded st \<longrightarrow>
        chainsBounded (snd (collectAllElements g doc chain depth st)))
   \<and> collectAllElements selfEmbedding 0 [] 0 \<lparr> iframeChainOf = [], collectWarnings = [] \<rparr>
        = (replicate 11 7,
           \<lparr> iframeChainOf = [(7, replicate 10 loopFrame)],
             collectWarnings = [''iframe nesting too deep (>10), stopping recursion''] \<rparr>)
   \<and> (\<forall>n. length (ancestorLinks 0 (nestedFrame n)) = n)"
proof -
  have cyclic: "collectAllElements selfEmbedding 0 [] 0 \<lparr> iframeChainOf = [], collectWarnings = [] \<rparr>
        = (replicate 11 7,
           \<lparr> iframeChainOf = [(7, replicate 10 loopFrame)],
             collectWarnings = [''iframe nesting too deep (>10), stopping recursion''] \<rparr>)"
    by (simp add: collectAllElements.simps selfEmbedding_def loopFrame_def MAX_DEPTH_def warn_def
        attachChain_def eval_nat_numeral)
  show ?thesis
    using cyclic collect_too_deep [of depth g doc chain st]
      collect_chainsBounded [of chain depth st g doc] ancestorLinks_nestedFrame
    by (simp add: MAX_DEPTH_def)
qed

theorem legacy_descent_bounded_witness:
  "MAX_DEPTH < 11
   \<and> collectAllElements selfEmbedding 0 (replicate 11 loopFrame) 11
        \<lparr> iframeChainOf = [], collectWarnings = [] \<rparr>
      = ([], \<lparr> iframeChainOf = [],
               collectWarnings = [''iframe nesting too deep (>10), stopping recursion''] \<rparr>)
   \<and> chainsBounded (snd (collectAllElements selfEmbedding 0 [] 0
        \<lparr> iframeChainOf = [], collectWarnings = [] \<rparr>))"
proof -
  have deep: "MAX_DEPTH < 11"
    by (simp add: MAX_DEPTH_def)
  have start: "length ([] :: IFrameElement list) \<le> 0
      \<and> chainsBounded \<lparr> iframeChainOf = [], collectWarnings = [] \<rparr>"
    by (simp add: chainsBounded_def)
  from legacy_descent_bounded [where depth = 11 and g = selfEmbedding and doc = 0
      and chain = "replicate 11 loopFrame"
      and st = "\<lparr> iframeChainOf = [], collectWarnings = [] \<rparr>"] deep
  have a: "collectAllElements selfEmbedding 0 (replicate 11 loopFrame) 11
        \<lparr> iframeChainOf = [], collectWarnings = [] \<rparr>
      = ([], warn ''iframe nesting too deep (>10), stopping recursion''
               \<lparr> iframeChainOf = [], collectWarnings = [] \<rparr>)"
    by blast
  from legacy_descent_bounded [where depth = 0 and g = selfEmbedding and doc = 0
      and chain = "[]" and st = "\<lparr> iframeChainOf = [], collectWarnings = [] \<rparr>"] start
  have b: "chainsBounded (snd (collectAllElements selfEmbedding 0 []  0
        \<lparr> iframeChainOf = [], collectWarnings = [] \<rparr>))"
    by blast
  from deep a b show ?thesis
    by (simp add: warn_def)
qed

section \<open>The claim about failing frames\<close>

lemma forEachElement_error_counter:
  assumes "eo_opts eo' = eo_opts eo" and "frameOffsetY eo' = frameOffsetY eo"
  shows "(case snd (forEachElement eo' vh sy els st') of Inl err \<Rightarrow> Some err | Inr s \<Rightarrow> None)
       = (case snd (forEachElement eo vh sy els st) of Inl err \<Rightarrow> Some err | Inr s \<Rightarrow> None)"
proof (induction els arbitrary: st st')
  case Nil
  then show ?case by simp
next
  case (Cons el els)
  have sel: "selected eo' vh sy el = selected eo vh sy el"
    using assms by (simp add: selected_def isRetained_def)
  show ?case
  proof (cases rule: forEachElement_cases[of eo vh sy el])
    case skip
    with sel Cons.IH[of st' st] show ?thesis
      by (simp add: forEachElement_skip del: forEachElement.simps(2))
  next
    case (throw err)
    with sel assms show ?thesis
      by (simp add: forEachElement_throw del: forEachElement.simps(2))
  next
    case (retain lbl)
    with sel assms Cons.IH show ?thesis
      by (simp add: forEachElement_retain del: forEachElement.simps(2))
  qed
qed

lemma frameFailure_counter: "frameFailure m os c fw = frameFailure m os c' fw"
proof -
  have "(case fst (evaluateScript (frameEvalOpts m os c (fst fw)) (snd fw)) of
           Inl err \<Rightarrow> Some err | Inr res \<Rightarrow> None)
      = (case fst (evaluateScript (frameEvalOpts m os c' (fst fw)) (snd fw)) of
           Inl err \<Rightarrow> Some err | Inr res \<Rightarrow> None)"
    using forEachElement_error_counter[of "frameEvalOpts m os c (fst fw)" "frameEvalOpts m os c' (fst fw)"
        "innerHeight (snd fw)" "window_scrollY (snd fw)" "document (snd fw)"
        "\<lparr> idCounter = c, ss_distilledHTML = [], ss_elementMap = [] \<rparr>"
        "\<lparr> idCounter = c', ss_distilledHTML = [], ss_elementMap = [] \<rparr>"]
    by (simp add: evaluateScript_fst frameEvalOpts_def split: sum.splits)
  then show ?thesis
    by (simp add: frameFailure_def split: evaluateOutcome.splits)
qed

lemma processFrame_failure:
  assumes "\<not> isDetached f" and "frameFailure m os c (f, w) = Some err"
  shows "snd (processFrame m os (f, w) st) = st\<lparr>consoleWarnings := consoleWarnings st @ [err]\<rparr>"
proof -
  from assms(2) have "frameFailure m os (globalIdCounter st) (f, w) = Some err"
    using frameFailure_counter[of m os c "(f, w)" "globalIdCounter st"] by simp
  with assms(1) show ?thesis
    by (auto simp: processFrame_cases frameFailure_def split: evaluateOutcome.splits sum.splits)
qed

lemma processFrame_core:
  assumes "globalIdCounter st1 = globalIdCounter st2" "allResults st1 = allResults st2"
    "stuck st1 = stuck st2"
  shows "fst (processFrame m os fw st1) = fst (processFrame m os fw st2)
       \<and> globalIdCounter (snd (processFrame m os fw st1)) = globalIdCounter (snd (processFrame m os fw st2))
       \<and> allResults (snd (processFrame m os fw st1)) = allResults (snd (processFrame m os fw st2))
       \<and> stuck (snd (processFrame m os fw st1)) = stuck (snd (processFrame m os fw st2))"
  using assms
  by (cases fw) (simp add: processFrame_cases split: evaluateOutcome.splits sum.splits)

lemma framesLoop_core:
  assumes "globalIdCounter st1 = globalIdCounter st2" "allResults st1 = allResults st2"
    "stuck st1 = stuck st2"
  shows "fst (framesLoop m os fws st1) = fst (framesLoop m os fws st2)
       \<and> globalIdCounter (snd (framesLoop m os fws st1)) = globalIdCounter (snd (framesLoop m os fws st2))
       \<and> allResults (snd (framesLoop m os fws st1)) = allResults (snd (framesLoop m os fws st2))
       \<and> stuck (snd (framesLoop m os fws st1)) = stuck (snd (framesLoop m os fws st2))"
  using assms
proof (induction fws arbitrary: st1 st2)
  case Nil
  then show ?case by simp
next
  case (Cons fw fws)
  from processFrame_core[OF Cons.prems, of m os fw]
  have p: "fst (processFrame m os fw st1) = fst (processFrame m os fw st2)"
    and c: "globalIdCounter (snd (processFrame m os fw st1)) = globalIdCounter (snd (processFrame m os fw st2))"
    and a: "allResults (snd (processFrame m os fw st1)) = allResults (snd (processFrame m os fw st2))"
    and s: "stuck (snd (processFrame m os fw st1)) = stuck (snd (processFrame m os fw st2))"
    by simp_all
  from Cons.IH[OF c a s] p c a s show ?case
    by (simp add: framesLoop_Cons del: framesLoop.simps(2))
qed

lemma processFrame_warnings:
  "\<exists>c. consoleWarnings (snd (processFrame m os fw st)) = consoleWarnings st @ c"
  by (cases fw) (simp add: processFrame_cases split: evaluateOutcome.splits sum.splits)

lemma framesLoop_warnings:
  "\<exists>c. consoleWarnings (snd (framesLoop m os fws st)) = consoleWarnings st @ c"
proof (induction fws arbitrary: st)
  case Nil
  then show ?case by simp
next
  case (Cons fw fws)
  from processFrame_warnings[of m os fw st] obtain c1 where
    c1: "consoleWarnings (snd (processFrame m os fw st)) = consoleWarnings st @ c1" by blast
  from Cons[of "snd (processFrame m os fw st)"] obtain c2 where
    "consoleWarnings (snd (framesLoop m os fws (snd (processFrame m os fw st))))
       = consoleWarnings (snd (processFrame m os fw st)) @ c2" by blast
  with c1 show ?case
    by (auto simp: framesLoop_Cons simp del: framesLoop.simps(2))
qed

lemma framesLoop_not_stuck:
  assumes "\<not> stuck st" and "\<forall>fw \<in> set fws. hostOutcome (snd fw) \<noteq> NeverSettles"
  shows "\<not> stuck (snd (framesLoop m os fws st))"
  using assms
proof (induction fws arbitrary: st)
  case Nil
  then show ?case by simp
next
  case (Cons fw fws)
  obtain f w where fw: "fw = (f, w)" by (cases fw)
  from Cons.prems have "\<not> stuck (snd (processFrame m os fw st))"
    by (simp add: fw processFrame_stuck)
  with Cons show ?case
    by (simp add: framesLoop_Cons del: framesLoop.simps(2))
qed

lemma framesLoop_nothing_processed:
  assumes "\<not> stuck st"
    and "\<forall>fw \<in> set fws. isDetached (fst fw) \<or> frameFailure m os 1 fw \<noteq> None"
  shows "allResults (snd (framesLoop m os fws st)) = allResults st
       \<and> \<not> stuck (snd (framesLoop m os fws st))"
  using assms
proof (induction fws arbitrary: st)
  case Nil
  then show ?case by simp
next
  case (Cons fw fws)
  obtain f w where fw: "fw = (f, w)" by (cases fw)
  have "allResults (snd (processFrame m os fw st)) = allResults st
      \<and> \<not> stuck (snd (processFrame m os fw st))"
  proof (cases "isDetached f")
    case True
    with Cons.prems(1) show ?thesis by (simp add: fw processFrame_cases)
  next
    case False
    with Cons.prems(2) obtain err where "frameFailure m os 1 (f, w) = Some err"
      by (auto simp: fw)
    from processFrame_failure[OF False this, of st] Cons.prems(1) show ?thesis
      by (simp add: fw)
  qed
  with Cons.IH[of "snd (processFrame m os fw st)"] Cons.prems(2) show ?case
    by (simp add: framesLoop_Cons del: framesLoop.simps(2))
qed

text \<open>
  C4, as the code has it. The pass over a page whose only frame fails does not fail: it
  returns the empty result. A frame whose evaluation never settles is not skipped: the pass
  never returns, and the frames after it are not processed.
\<close>

theorem pass_without_frames_counterexample:
  "returned (captureOptimizedSnapshot failingPage defaultOptions) =
     Resolved \<lparr> distilledHTML = [], elementMap = [], totalElements = 0, visibleElements = 0 \<rparr>
   \<and> warnings (captureOptimizedSnapshot failingPage defaultOptions) = [HostError ''Target closed'']
   \<and> returned (captureOptimizedSnapshot hangingPage defaultOptions) = Pending
   \<and> frames (pageAfter (captureOptimizedSnapshot hangingPage defaultOptions)) = frames hangingPage
   \<and> warnings (captureOptimizedSnapshot hangingPage defaultOptions) = []"
  by (simp add: example_defs)

text \<open>
  C4, amended. A frame whose evaluation fails (the host rejects it, or the script throws)
  is skipped: a pass that returns has printed a warning for it, and the pass returns, and
  leaves in the other frames, what it returns and leaves when the frame is not there at
  all. The pass has no failure of its own: it returns a result whenever every evaluation
  settles, and the empty result when no frame can be processed (each one is detached or
  fails).
\<close>

theorem frame_failure_isolated:
  fixes page :: Page and options :: SnapshotOptions
    and before after :: "(Frame \<times> FrameWindow) list" and f :: Frame and w :: FrameWindow
  defines "withFrame \<equiv> captureOptimizedSnapshot (page\<lparr>frames := before @ (f, w) # after\<rparr>) options"
    and "withoutFrame \<equiv> captureOptimizedSnapshot (page\<lparr>frames := before @ after\<rparr>) options"
  assumes attached: "\<not> isDetached f"
    and fails: "frameFailure (mainFrameId page) (applyDefaults options) c (f, w) = Some err"
  shows "returned withFrame = returned withoutFrame
       \<and> take (length before) (frames (pageAfter withFrame))
           = take (length before) (frames (pageAfter withoutFrame))
       \<and> drop (Suc (length before)) (frames (pageAfter withFrame))
           = drop (length before) (frames (pageAfter withoutFrame))
       \<and> (returned withFrame \<noteq> Pending \<longrightarrow> err \<in> set (warnings withFrame))
       \<and> (\<forall>p. (\<forall>fw \<in> set (frames p). hostOutcome (snd fw) \<noteq> NeverSettles) \<longrightarrow>
              (\<exists>r. returned (captureOptimizedSnapshot p options) = Resolved r))
       \<and> (\<forall>p. (\<forall>fw \<in> set (frames p).
                 isDetached (fst fw)
                 \<or> frameFailure (mainFrameId p) (applyDefaults options) 1 fw \<noteq> None) \<longrightarrow>
              returned (captureOptimizedSnapshot p options)
                = Resolved \<lparr> distilledHTML = [], elementMap = [], totalElements = 0,
                             visibleElements = 0 \<rparr>)"
proof -
  let ?m = "mainFrameId page" and ?os = "applyDefaults options"
  let ?r1 = "framesLoop ?m ?os before initialPassState"
  let ?s1 = "snd ?r1"
  let ?s1' = "?s1\<lparr>consoleWarnings := consoleWarnings ?s1 @ [err]\<rparr>"
  have init: "\<not> stuck initialPassState"
    by (simp add: initialPassState_def)
  have len: "length (fst ?r1) = length before"
    by (rule framesLoop_length)
  have pf: "snd (processFrame ?m ?os (f, w) ?s1) = ?s1'"
    using attached fails by (rule processFrame_failure)
  have core: "fst (framesLoop ?m ?os after ?s1') = fst (framesLoop ?m ?os after ?s1)
      \<and> globalIdCounter (snd (framesLoop ?m ?os after ?s1')) = globalIdCounter (snd (framesLoop ?m ?os after ?s1))
      \<and> allResults (snd (framesLoop ?m ?os after ?s1')) = allResults (snd (framesLoop ?m ?os after ?s1))
      \<and> stuck (snd (framesLoop ?m ?os after ?s1')) = stuck (snd (framesLoop ?m ?os after ?s1))"
    by (rule framesLoop_core) simp_all
  have abc: "returned withFrame = returned withoutFrame
       \<and> take (length before) (frames (pageAfter withFrame))
           = take (length before) (frames (pageAfter withoutFrame))
       \<and> drop (Suc (length before)) (frames (pageAfter withFrame))
           = drop (length before) (frames (pageAfter withoutFrame))
       \<and> (returned withFrame \<noteq> Pending \<longrightarrow> err \<in> set (warnings withFrame))"
  proof (cases "stuck ?s1")
    case True
    then show ?thesis
      using len
      by (simp add: withFrame_def withoutFrame_def capture_returned capture_frames
          capture_warnings framesLoop_append[OF init])
  next
    case False
    from framesLoop_warnings[of ?m ?os after ?s1'] obtain ws where
      "consoleWarnings (snd (framesLoop ?m ?os after ?s1')) = consoleWarnings ?s1' @ ws" by blast
    with False core pf len show ?thesis
      by (simp add: withFrame_def withoutFrame_def capture_returned capture_frames
          capture_warnings framesLoop_append[OF init] framesLoop_Cons
          del: framesLoop.simps(2))
  qed
  have d: "\<forall>p. (\<forall>fw \<in> set (frames p). hostOutcome (snd fw) \<noteq> NeverSettles) \<longrightarrow>
              (\<exists>r. returned (captureOptimizedSnapshot p options) = Resolved r)"
    using framesLoop_not_stuck[OF init] by (simp add: capture_returned)
  have e: "\<forall>p. (\<forall>fw \<in> set (frames p).
                 isDetached (fst fw)
                 \<or> frameFailure (mainFrameId p) (applyDefaults options) 1 fw \<noteq> None) \<longrightarrow>
              returned (captureOptimizedSnapshot p options)
                = Resolved \<lparr> distilledHTML = [], elementMap = [], totalElements = 0,
                             visibleElements = 0 \<rparr>"
    using framesLoop_nothing_processed[OF init]
    by (simp add: capture_returned initialPassState_def mergeResults_def)
  from abc d e show ?thesis by blast
qed

theorem frame_failure_isolated_witness:
  "\<not> isDetached mainFrame0
   \<and> frameFailure 0 (applyDefaults defaultOptions) 1
        (mainFrame0, windowOf [buttonAt 10 20 80 30, progressBar])
      = Some (TypeError ''text.replace is not a function'')
   \<and> returned (captureOptimizedSnapshot
        \<lparr> frames = (mainFrame0, windowOf [buttonAt 10 20 80 30, progressBar])
                     # [(frameA, windowOf [buttonAt 5 5 80 30])],
          mainFrameId = 0 \<rparr> defaultOptions)
     = returned (captureOptimizedSnapshot
        \<lparr> frames = [(frameA, windowOf [buttonAt 5 5 80 30])], mainFrameId = 0 \<rparr> defaultOptions)"
proof -
  have att: "\<not> isDetached mainFrame0"
    by (simp add: mainFrame0_def)
  have fails: "frameFailure (mainFrameId \<lparr> frames = [], mainFrameId = 0 \<rparr>)
        (applyDefaults defaultOptions) 1
        (mainFrame0, windowOf [buttonAt 10 20 80 30, progressBar])
      = Some (TypeError ''text.replace is not a function'')"
    by (simp add: frameFailure_def frameEvalOpts_def example_defs)
  from frame_failure_isolated [OF att fails, where before = "[]"
      and after = "[(frameA, windowOf [buttonAt 5 5 80 30])]"]
  have "returned (captureOptimizedSnapshot
        \<lparr> frames = (mainFrame0, windowOf [buttonAt 10 20 80 30, progressBar])
                     # [(frameA, windowOf [buttonAt 5 5 80 30])],
          mainFrameId = 0 \<rparr> defaultOptions)
     = returned (captureOptimizedSnapshot
        \<lparr> frames = [(frameA, windowOf [buttonAt 5 5 80 30])], mainFrameId = 0 \<rparr> defaultOptions)"
    by simp
  with att fails show ?thesis by simp
qed









section \<open>The claim about resolving identifiers\<close>













section \<open>The claim about the shared counter\<close>

text \<open>
  C1. On a page whose main frame holds a button and a progress bar with a click handler,
  and whose embedded frame holds a button, the script in the main frame issues
  identifiers 1 and 2 and writes their markers, and then throws on the progress bar, whose
  \<^verbatim>\<open>value\<close> is a number. The shared counter is taken over from the script only when the
  script returns, so it still stands at 1 after the main frame, and the button of the
  embedded frame is issued identifier 1 again: after the pass the markers, in
  frame-then-document order, are 1, 2, 1, and the only descriptor of the pass carries
  identifier 1 and describes the button of the embedded frame.
\<close>

theorem identifier_reissued_after_throw:
  "fst (evaluateScript (frameEvalOpts 0 (applyDefaults defaultOptions) 1 mainFrame0)
          (windowOf [buttonAt 10 20 80 30, progressBar]))
     = Inl (TypeError ''text.replace is not a function'')
   \<and> globalIdCounter (snd (processFrame 0 (applyDefaults defaultOptions)
          (mainFrame0, windowOf [buttonAt 10 20 80 30, progressBar]) initialPassState)) = 1
   \<and> map (\<lambda>el. getAttribute el ''data-mcp-id'')
        (allElements (pageAfter (captureOptimizedSnapshot throwingPage defaultOptions)))
       = [Some ''1'', Some ''2'', Some ''1'']
   \<and> returned (captureOptimizedSnapshot throwingPage defaultOptions) =
     Resolved \<lparr> distilledHTML = ''<button id=\"1\">OK</button>'',
       elementMap =
         [\<lparr> mcpId = 1, md_tagName = ''button'', md_text = ''OK'', md_role = None,
            bounds = \<lparr> bounds_x = 15, bounds_y = 25, bounds_width = 80, bounds_height = 30 \<rparr> \<rparr>],
       totalElements = 1, visibleElements = 1 \<rparr>"
proof -
  have "fst (evaluateScript (frameEvalOpts 0 (applyDefaults defaultOptions) 1 mainFrame0)
          (windowOf [buttonAt 10 20 80 30, progressBar]))
     = Inl (TypeError ''text.replace is not a function'')"
    by (simp add: frameEvalOpts_def example_defs)
  moreover have "globalIdCounter (snd (processFrame 0 (applyDefaults defaultOptions)
          (mainFrame0, windowOf [buttonAt 10 20 80 30, progressBar]) initialPassState)) = 1"
    by (simp add: example_defs)
  ultimately show ?thesis
    using throwingPage_eval by simp
qed

theorem identifier_reissued_after_throw_witness:
  "\<not> distinct (map (\<lambda>el. getAttribute el ''data-mcp-id'')
        (allElements (pageAfter (captureOptimizedSnapshot throwingPage defaultOptions))))"
proof -
  from identifier_reissued_after_throw
  have "map (\<lambda>el. getAttribute el ''data-mcp-id'')
        (allElements (pageAfter (captureOptimizedSnapshot throwingPage defaultOptions)))
       = [Some ''1'', Some ''2'', Some ''1'']"
    by blast
  then show ?thesis by simp
qed

section \<open>The claim about the cumulative offset\<close>

text \<open>
  C5. Frame A sits at \<open>(10, 20)\<close> in the main frame, frame B at \<open>(50, 100)\<close> in frame A, and
  a button at \<open>(5, 5)\<close> in frame B. The host reports the box of an embedding element
  relative to the viewport of the main frame, so the box of frame B is at \<open>(60, 120)\<close>,
  which already contains the position of frame A. The loop adds the boxes of both links,
  counts the position of frame A twice, and the pass reports the button at \<open>(75, 145)\<close>.
\<close>

theorem nested_offset_counts_ancestor_twice:
  "linkOffset frameA = (10, 20)
   \<and> linkOffset frameB = (10 + 50, 20 + 100)
   \<and> offsetLoop 0 frameB (0, 0) = (70, 140)
   \<and> returned (captureOptimizedSnapshot nestedPage defaultOptions) =
     Resolved \<lparr> distilledHTML = ''<button id=\"1\">OK</button>'',
       elementMap =
         [\<lparr> mcpId = 1, md_tagName = ''button'', md_text = ''OK'', md_role = None,
            bounds = \<lparr> bounds_x = 75, bounds_y = 145, bounds_width = 80, bounds_height = 30 \<rparr> \<rparr>],
       totalElements = 1, visibleElements = 1 \<rparr>"
proof -
  have "linkOffset frameA = (10, 20)" "linkOffset frameB = (10 + 50, 20 + 100)"
    by (simp_all add: linkOffset_def frameA_def frameB_def)
  moreover have "offsetLoop 0 frameB (0, 0) = (70, 140)"
    by (simp add: frameA_def frameB_def mainFrame0_def)
  moreover have "returned (captureOptimizedSnapshot nestedPage defaultOptions) =
     Resolved \<lparr> distilledHTML = ''<button id=\"1\">OK</button>'',
       elementMap =
         [\<lparr> mcpId = 1, md_tagName = ''button'', md_text = ''OK'', md_role = None,
            bounds = \<lparr> bounds_x = 75, bounds_y = 145, bounds_width = 80, bounds_height = 30 \<rparr> \<rparr>],
       totalElements = 1, visibleElements = 1 \<rparr>"
    by (simp add: example_defs)
  ultimately show ?thesis by blast
qed

theorem nested_offset_counts_ancestor_twice_witness:
  "\<exists>r d. returned (captureOptimizedSnapshot nestedPage defaultOptions) = Resolved r
     \<and> elementMap r = [d]
     \<and> (bounds_x (bounds d), bounds_y (bounds d)) = (75, 145)
     \<and> (bounds_x (bounds d), bounds_y (bounds d)) \<noteq> (65, 125)"
proof -
  from nested_offset_counts_ancestor_twice
  have "returned (captureOptimizedSnapshot nestedPage defaultOptions) =
     Resolved \<lparr> distilledHTML = ''<button id=\"1\">OK</button>'',
       elementMap =
         [\<lparr> mcpId = 1, md_tagName = ''button'', md_text = ''OK'', md_role = None,
            bounds = \<lparr> bounds_x = 75, bounds_y = 145, bounds_width = 80, bounds_height = 30 \<rparr> \<rparr>],
       totalElements = 1, visibleElements = 1 \<rparr>"
    by blast
  then show ?thesis by simp
qed

end
